theory Spec2Isabelle
  imports Main
begin

section \<open>Python values and strings\<close>

text \<open>
  The server (\<^verbatim>\<open>src/src/main.py\<close>) is Python: the rounds it handles are whatever
  \<^verbatim>\<open>json.loads\<close> returns, so the model works on dynamically typed values. A float is
  identified by its \<^verbatim>\<open>repr\<close>; a \<^verbatim>\<open>dict\<close> is an association list in insertion order
  with unique keys. A \<^verbatim>\<open>str\<close> is a list of characters, each \<^typ>\<open>char\<close> standing for one
  code point below 256.

  The model covers the history store, the reset and new actions of the session endpoint,
  round generation, the broadcast and one run of the preloader. Calls of \<^verbatim>\<open>logging\<close>
  are left out, except where building the log line runs a Redis command or can raise.
\<close>

datatype pyval =
    PNone
  | PBool bool
  | PInt int
  | PFloat string
  | PStr string
  | PList "pyval list"
  | PDict "(string \<times> pyval) list"

text \<open>Exceptions raised by the interpreter or by the Redis client, with their message.\<close>

datatype exc =
    AttributeError string
  | TypeError string
  | UnboundLocalError string
  | RedisError string

fun str_exc :: "exc \<Rightarrow> string" where
  "str_exc (AttributeError m) = m"
| "str_exc (TypeError m) = m"
| "str_exc (UnboundLocalError m) = m"
| "str_exc (RedisError m) = m"

abbreviation nl :: string where
  "nl \<equiv> [CHR 0x0A]"

abbreviation apostrophe :: string where
  "apostrophe \<equiv> [CHR 0x27]"

text \<open>Truth value testing (\<^verbatim>\<open>if x:\<close>).\<close>

fun truthy :: "pyval \<Rightarrow> bool" where
  "truthy PNone = False"
| "truthy (PBool b) = b"
| "truthy (PInt i) = (i \<noteq> 0)"
| "truthy (PFloat r) = (r \<noteq> ''0.0'' \<and> r \<noteq> ''-0.0'')"
| "truthy (PStr s) = (s \<noteq> [])"
| "truthy (PList xs) = (xs \<noteq> [])"
| "truthy (PDict kvs) = (kvs \<noteq> [])"

fun type_name :: "pyval \<Rightarrow> string" where
  "type_name PNone = ''NoneType''"
| "type_name (PBool b) = ''bool''"
| "type_name (PInt i) = ''int''"
| "type_name (PFloat r) = ''float''"
| "type_name (PStr s) = ''str''"
| "type_name (PList xs) = ''list''"
| "type_name (PDict kvs) = ''dict''"

definition no_attribute :: "pyval \<Rightarrow> string \<Rightarrow> exc" where
  "no_attribute v a =
     AttributeError (apostrophe @ type_name v @ apostrophe @ '' object has no attribute ''
                     @ apostrophe @ a @ apostrophe)"

text \<open>\<^verbatim>\<open>d.get(k, default)\<close>: only a dict has the method.\<close>

definition py_get :: "pyval \<Rightarrow> string \<Rightarrow> pyval \<Rightarrow> exc + pyval" where
  "py_get d k dflt =
     (case d of
        PDict kvs \<Rightarrow> (case map_of kvs k of None \<Rightarrow> Inr dflt | Some v \<Rightarrow> Inr v)
      | _ \<Rightarrow> Inl (no_attribute d ''get''))"

text \<open>\<^verbatim>\<open>for x in v\<close>: a list yields its items, a dict its keys, a str its characters.\<close>

definition py_iter :: "pyval \<Rightarrow> exc + pyval list" where
  "py_iter v =
     (case v of
        PList xs \<Rightarrow> Inr xs
      | PDict kvs \<Rightarrow> Inr (map (\<lambda>kv. PStr (fst kv)) kvs)
      | PStr s \<Rightarrow> Inr (map (\<lambda>c. PStr [c]) s)
      | _ \<Rightarrow> Inl (TypeError (apostrophe @ type_name v @ apostrophe @ '' object is not iterable'')))"

subsection \<open>Decimal and repr\<close>

function str_nat :: "nat \<Rightarrow> string" where
  "str_nat n = (if n < 10 then [''0123456789'' ! n] else str_nat (n div 10) @ [''0123456789'' ! (n mod 10)])"
  by pat_completeness auto
termination
  by (relation "measure id") auto

declare str_nat.simps [simp del]

definition str_int :: "int \<Rightarrow> string" where
  "str_int i = (if i < 0 then CHR ''-'' # str_nat (nat (- i)) else str_nat (nat i))"

fun py_join :: "string \<Rightarrow> string list \<Rightarrow> string" where
  "py_join sep [] = []"
| "py_join sep [x] = x"
| "py_join sep (x # y # ys) = x @ sep @ py_join sep (y # ys)"

definition hex2 :: "nat \<Rightarrow> string" where
  "hex2 n = [''0123456789abcdef'' ! (n div 16), ''0123456789abcdef'' ! (n mod 16)]"

definition py_printable :: "char \<Rightarrow> bool" where
  "py_printable c =
     (let n = (of_char c :: nat)
      in (32 \<le> n \<and> n < 127) \<or> (161 \<le> n \<and> n \<noteq> 173))"

definition repr_char :: "char \<Rightarrow> char \<Rightarrow> string" where
  "repr_char q c =
     (if c = CHR 0x5C then [CHR 0x5C, CHR 0x5C]
      else if c = q then [CHR 0x5C, q]
      else if c = CHR 0x09 then [CHR 0x5C, CHR ''t'']
      else if c = CHR 0x0A then [CHR 0x5C, CHR ''n'']
      else if c = CHR 0x0D then [CHR 0x5C, CHR ''r'']
      else if py_printable c then [c]
      else [CHR 0x5C, CHR ''x''] @ hex2 (of_char c))"

definition repr_str :: "string \<Rightarrow> string" where
  "repr_str s =
     (let q = (if CHR 0x27 \<in> set s \<and> CHR 0x22 \<notin> set s then CHR 0x22 else CHR 0x27)
      in [q] @ concat (map (repr_char q) s) @ [q])"

fun py_repr :: "pyval \<Rightarrow> string" where
  "py_repr PNone = ''None''"
| "py_repr (PBool b) = (if b then ''True'' else ''False'')"
| "py_repr (PInt i) = str_int i"
| "py_repr (PFloat r) = r"
| "py_repr (PStr s) = repr_str s"
| "py_repr (PList xs) = ''['' @ py_join '', '' (map py_repr xs) @ '']''"
| "py_repr (PDict kvs) =
     ''{'' @ py_join '', '' (map (\<lambda>kv. repr_str (fst kv) @ '': '' @ py_repr (snd kv)) kvs) @ ''}''"

text \<open>\<^verbatim>\<open>str(v)\<close>, as an f-string formats a value: a str is itself, anything else its repr.\<close>

definition py_str :: "pyval \<Rightarrow> string" where
  "py_str v = (case v of PStr s \<Rightarrow> s | _ \<Rightarrow> py_repr v)"

subsection \<open>The string methods the server uses\<close>

text \<open>\<^verbatim>\<open>s.find(c)\<close> and \<^verbatim>\<open>s.rfind(c)\<close> for a one-character needle: an index, or -1.\<close>

primrec py_find :: "char \<Rightarrow> string \<Rightarrow> int" where
  "py_find c [] = -1"
| "py_find c (x # xs) =
     (if x = c then 0 else (let r = py_find c xs in if r < 0 then -1 else r + 1))"

definition py_rfind :: "char \<Rightarrow> string \<Rightarrow> int" where
  "py_rfind c s = (let r = py_find c (rev s) in if r < 0 then -1 else int (length s) - 1 - r)"

text \<open>\<^verbatim>\<open>s[a:b]\<close> for indices that are not negative.\<close>

definition py_slice :: "string \<Rightarrow> int \<Rightarrow> int \<Rightarrow> string" where
  "py_slice s a b = take (nat (b - a)) (drop (nat a) s)"

definition py_isspace :: "char \<Rightarrow> bool" where
  "py_isspace c =
     (let n = (of_char c :: nat)
      in (9 \<le> n \<and> n \<le> 13) \<or> (28 \<le> n \<and> n \<le> 32) \<or> n = 133 \<or> n = 160)"

definition py_strip :: "string \<Rightarrow> string" where
  "py_strip s = rev (dropWhile py_isspace (rev (dropWhile py_isspace s)))"

primrec startswith :: "string \<Rightarrow> string \<Rightarrow> bool" where
  "startswith [] s = True"
| "startswith (p # ps) s = (case s of [] \<Rightarrow> False | c # cs \<Rightarrow> c = p \<and> startswith ps cs)"

text \<open>The two-character sequence backslash, double quote.\<close>

fun has_escaped_quote :: "string \<Rightarrow> bool" where
  "has_escaped_quote (a # b # s) = ((a = CHR 0x5C \<and> b = CHR 0x22) \<or> has_escaped_quote (b # s))"
| "has_escaped_quote s = False"

text \<open>\<^verbatim>\<open>s.replace('\\"', '"')\<close>: every occurrence, left to right, without overlap.\<close>

fun replace_escaped_quotes :: "string \<Rightarrow> string" where
  "replace_escaped_quotes (a # b # s) =
     (if a = CHR 0x5C \<and> b = CHR 0x22 then CHR 0x22 # replace_escaped_quotes s
      else a # replace_escaped_quotes (b # s))"
| "replace_escaped_quotes s = s"

subsection \<open>The fenced-block pattern\<close>

text \<open>
  \<^verbatim>\<open>re.findall(r"```(?:json)?(.*?)```", text, re.DOTALL)\<close>: scanning from the left, an
  opening fence of three backquotes, the tag \<^verbatim>\<open>json\<close> when it follows, then the shortest
  text up to the next fence, which is the group returned; the scan goes on after the closing
  fence. Where no closing fence follows, no match starts there. (Dropping the optional tag on
  backtracking finds no other match: the four letters of the tag hold no backquote.)
\<close>

definition fence :: string where
  "fence = [CHR 0x60, CHR 0x60, CHR 0x60]"

text \<open>The text before the first fence and the text after it.\<close>

fun find_fence :: "string \<Rightarrow> (string \<times> string) option" where
  "find_fence [] = None"
| "find_fence (c # s) =
     (if startswith fence (c # s) then Some ([], drop 3 (c # s))
      else (case find_fence s of None \<Rightarrow> None | Some (a, b) \<Rightarrow> Some (c # a, b)))"

lemma find_fence_shorter: "find_fence s = Some (a, b) \<Longrightarrow> length b < length s"
proof (induction s arbitrary: a b)
  case Nil
  then show ?case by simp
next
  case (Cons c s)
  show ?case
  proof (cases "startswith fence (c # s)")
    case True
    with Cons.prems show ?thesis by auto
  next
    case False
    with Cons.prems obtain a' where "find_fence s = Some (a', b)"
      by (auto split: option.splits)
    from Cons.IH [OF this] show ?thesis by simp
  qed
qed

definition skip_json_tag :: "string \<Rightarrow> string" where
  "skip_json_tag s = (if startswith ''json'' s then drop 4 s else s)"

lemma skip_json_tag_length: "length (skip_json_tag t) \<le> length t"
  by (simp add: skip_json_tag_def)

function findall_code_blocks :: "string \<Rightarrow> string list" where
  "findall_code_blocks [] = []"
| "findall_code_blocks (c # s) =
     (if startswith fence (c # s) then
        (case find_fence (skip_json_tag (drop 3 (c # s))) of
           Some (grp, rest) \<Rightarrow> grp # findall_code_blocks rest
         | None \<Rightarrow> findall_code_blocks s)
      else findall_code_blocks s)"
  by pat_completeness auto
termination
proof (relation "measure length")
  fix c s x2 grp rest
  assume "find_fence (skip_json_tag (drop 3 (c # s))) = Some x2" and "(grp, rest) = x2"
  then have "length rest < length (skip_json_tag (drop 3 (c # s)))"
    using find_fence_shorter by metis
  also have "\<dots> \<le> length (drop 3 (c # s))"
    by (rule skip_json_tag_length)
  also have "\<dots> \<le> length (c # s)"
    by simp
  finally show "(rest, c # s) \<in> measure length"
    by simp
qed auto

section \<open>The persistent store\<close>

text \<open>
  Redis is an external collaborator, reached through the commands below. A hash field holds
  an integer (the server only ever keeps \<^verbatim>\<open>round_count\<close> there, written and incremented as a
  number and read back through \<^verbatim>\<open>int\<close>); a list holds strings. \<open>budget\<close> is the number of
  commands the connection still answers before it is lost (\<open>None\<close>: it is never lost), so a
  failure can strike between any two commands and every \<^verbatim>\<open>except\<close> branch of the server
  can be reached; a command that fails changes nothing.
\<close>

record redis =
  hashes :: "string \<Rightarrow> (string \<times> int) list option"
  lists :: "string \<Rightarrow> string list option"
  ttl :: "string \<Rightarrow> int option"
  budget :: "nat option"

definition cmd :: "(redis \<Rightarrow> 'a \<times> redis) \<Rightarrow> redis \<Rightarrow> (exc + 'a) \<times> redis" where
  "cmd f r =
     (case budget r of
        None \<Rightarrow> (case f r of (a, r') \<Rightarrow> (Inr a, r'))
      | Some 0 \<Rightarrow> (Inl (RedisError ''Connection lost''), r)
      | Some (Suc n) \<Rightarrow> (case f (r\<lparr>budget := Some n\<rparr>) of (a, r') \<Rightarrow> (Inr a, r')))"

text \<open>Sequencing inside a \<^verbatim>\<open>try\<close> block: the first exception ends the block.\<close>

definition rbind ::
  "(redis \<Rightarrow> (exc + 'a) \<times> redis) \<Rightarrow> ('a \<Rightarrow> redis \<Rightarrow> (exc + 'b) \<times> redis)
     \<Rightarrow> redis \<Rightarrow> (exc + 'b) \<times> redis" where
  "rbind m k r = (case m r of (Inl e, r') \<Rightarrow> (Inl e, r') | (Inr a, r') \<Rightarrow> k a r')"

definition rreturn :: "'a \<Rightarrow> redis \<Rightarrow> (exc + 'a) \<times> redis" where
  "rreturn a r = (Inr a, r)"

fun dict_set :: "(string \<times> 'v) list \<Rightarrow> string \<Rightarrow> 'v \<Rightarrow> (string \<times> 'v) list" where
  "dict_set [] k v = [(k, v)]"
| "dict_set ((k', v') # kvs) k v = (if k' = k then (k, v) # kvs else (k', v') # dict_set kvs k v)"

definition key_exists :: "redis \<Rightarrow> string \<Rightarrow> bool" where
  "key_exists r key = (hashes r key \<noteq> None \<or> lists r key \<noteq> None)"

definition hgetall :: "string \<Rightarrow> redis \<Rightarrow> (exc + (string \<times> int) list) \<times> redis" where
  "hgetall key = cmd (\<lambda>r. (case hashes r key of None \<Rightarrow> [] | Some h \<Rightarrow> h, r))"

definition hget :: "string \<Rightarrow> string \<Rightarrow> redis \<Rightarrow> (exc + int option) \<times> redis" where
  "hget key field = cmd (\<lambda>r. (case hashes r key of None \<Rightarrow> None | Some h \<Rightarrow> map_of h field, r))"

definition hset :: "string \<Rightarrow> string \<Rightarrow> int \<Rightarrow> redis \<Rightarrow> (exc + unit) \<times> redis" where
  "hset key field v =
     cmd (\<lambda>r. ((), r\<lparr>hashes := (hashes r)
                  (key \<mapsto> dict_set (case hashes r key of None \<Rightarrow> [] | Some h \<Rightarrow> h) field v)\<rparr>))"

text \<open>
  \<^verbatim>\<open>HINCRBY\<close> works on signed 64-bit integers: an increment that would leave the range is
  answered with an error and changes nothing.
\<close>

definition hincrby :: "string \<Rightarrow> string \<Rightarrow> int \<Rightarrow> redis \<Rightarrow> (exc + int) \<times> redis" where
  "hincrby key field d =
     rbind (cmd (\<lambda>r. ((), r))) (\<lambda>u r.
       let h = (case hashes r key of None \<Rightarrow> [] | Some h \<Rightarrow> h);
           n = (case map_of h field of None \<Rightarrow> 0 | Some i \<Rightarrow> i) + d
       in if - (2 ^ 63) \<le> n \<and> n \<le> 2 ^ 63 - 1
          then (Inr n, r\<lparr>hashes := (hashes r)(key \<mapsto> dict_set h field n)\<rparr>)
          else (Inl (RedisError ''increment or decrement would overflow''), r))"

definition expire :: "string \<Rightarrow> int \<Rightarrow> redis \<Rightarrow> (exc + unit) \<times> redis" where
  "expire key secs =
     cmd (\<lambda>r. ((), if key_exists r key then r\<lparr>ttl := (ttl r)(key \<mapsto> secs)\<rparr> else r))"

definition lpush :: "string \<Rightarrow> string \<Rightarrow> redis \<Rightarrow> (exc + unit) \<times> redis" where
  "lpush key v =
     cmd (\<lambda>r. ((), r\<lparr>lists := (lists r)
                  (key \<mapsto> v # (case lists r key of None \<Rightarrow> [] | Some l \<Rightarrow> l))\<rparr>))"

text \<open>\<^verbatim>\<open>ltrim(key, 0, n - 1)\<close> and \<^verbatim>\<open>lrange(key, 0, n - 1)\<close>: the first \<open>n\<close> entries.\<close>

definition ltrim :: "string \<Rightarrow> nat \<Rightarrow> redis \<Rightarrow> (exc + unit) \<times> redis" where
  "ltrim key n =
     cmd (\<lambda>r. ((), case lists r key of None \<Rightarrow> r
                    | Some l \<Rightarrow> r\<lparr>lists := (lists r)(key \<mapsto> take n l)\<rparr>))"

definition lrange :: "string \<Rightarrow> nat \<Rightarrow> redis \<Rightarrow> (exc + string list) \<times> redis" where
  "lrange key n = cmd (\<lambda>r. (case lists r key of None \<Rightarrow> [] | Some l \<Rightarrow> take n l, r))"

definition llen :: "string \<Rightarrow> redis \<Rightarrow> (exc + nat) \<times> redis" where
  "llen key = cmd (\<lambda>r. (case lists r key of None \<Rightarrow> 0 | Some l \<Rightarrow> length l, r))"

definition delete :: "string \<Rightarrow> redis \<Rightarrow> (exc + unit) \<times> redis" where
  "delete key =
     cmd (\<lambda>r. ((), r\<lparr>hashes := (hashes r)(key := None), lists := (lists r)(key := None),
                      ttl := (ttl r)(key := None)\<rparr>))"

definition REDIS_SESSION_PREFIX :: string where
  "REDIS_SESSION_PREFIX = ''twotruths:session:''"

definition REDIS_STATEMENT_PREFIX :: string where
  "REDIS_STATEMENT_PREFIX = ''twotruths:statements:''"

definition REDIS_MAX_HISTORY :: nat where
  "REDIS_MAX_HISTORY = 100"

definition REDIS_SESSION_EXPIRY :: int where
  "REDIS_SESSION_EXPIRY = 60 * 60 * 24 * 30"

section \<open>The server's state\<close>

text \<open>
  \<open>env\<close> holds what the module fixes when it is loaded and the libraries it calls: the
  Anthropic client (\<open>None\<close> when no API key is set; otherwise the outcome of the n-th call
  for a prompt), the prompt of \<^verbatim>\<open>config.yaml\<close>, \<^verbatim>\<open>json.loads\<close> (\<open>Inl\<close>: the message of
  its \<^verbatim>\<open>JSONDecodeError\<close>), \<^verbatim>\<open>json.dumps\<close> (\<open>None\<close>: it raises \<^verbatim>\<open>TypeError\<close>),
  \<^verbatim>\<open>uuid.uuid4\<close> and \<^verbatim>\<open>datetime.now().isoformat()\<close>. \<open>world\<close> holds the module's
  mutable globals, the store behind \<^verbatim>\<open>redis_client\<close> (\<open>None\<close> when the connection failed
  at start), and the prompts sent to the model so far.
\<close>

record history =
  rounds :: "pyval list"
  round_count :: int

datatype api_outcome =
    Reply string
  | APIConnectionError string
  | RateLimitError string
  | AuthenticationError string
  | APIStatusError int
  | OtherError string

record env =
  anthropic_client :: "(nat \<Rightarrow> string \<Rightarrow> api_outcome) option"
  claude_prompt :: "string option"
  json_loads :: "string \<Rightarrow> string + pyval"
  json_dumps :: "pyval \<Rightarrow> string option"
  uuid4 :: "nat \<Rightarrow> string"
  isoformat_now :: "nat \<Rightarrow> string"

record world =
  redis_client :: "redis option"
  session_history :: history
  current_session_id :: "string option"
  uuids_drawn :: nat
  clock :: nat
  api_log :: "string list"
  preloaded_round :: pyval
  is_preloading :: bool
  new_round_requested :: bool
  message_queues :: "(nat \<times> string list) list"

section \<open>Session management\<close>

definition get_session_id :: "env \<Rightarrow> world \<Rightarrow> string \<times> world" where
  "get_session_id e w =
     (case (case current_session_id w of None \<Rightarrow> None | Some sid \<Rightarrow> if sid = [] then None else Some sid) of
        Some sid \<Rightarrow> (sid, w)
      | None \<Rightarrow>
          (let new_id = uuid4 e (uuids_drawn w)
           in (new_id, w\<lparr>current_session_id := Some new_id, uuids_drawn := Suc (uuids_drawn w)\<rparr>)))"

definition session_key :: "string \<Rightarrow> string" where
  "session_key session_id = REDIS_SESSION_PREFIX @ session_id"

definition statements_key :: "string \<Rightarrow> string" where
  "statements_key session_id = REDIS_STATEMENT_PREFIX @ session_id"

definition prompt_key :: "string \<Rightarrow> string" where
  "prompt_key session_id = REDIS_SESSION_PREFIX @ session_id @ '':prompts''"

definition response_key :: "string \<Rightarrow> string" where
  "response_key session_id = REDIS_SESSION_PREFIX @ session_id @ '':responses''"

text \<open>The loop of \<^verbatim>\<open>get_session_history\<close>: an entry that does not decode is skipped.\<close>

fun decode_rounds :: "env \<Rightarrow> string list \<Rightarrow> pyval list" where
  "decode_rounds e [] = []"
| "decode_rounds e (statement_json # rest) =
     (case json_loads e statement_json of
        Inl msg \<Rightarrow> decode_rounds e rest
      | Inr statement_data \<Rightarrow> statement_data # decode_rounds e rest)"

definition redis_get_history :: "env \<Rightarrow> string \<Rightarrow> redis \<Rightarrow> (exc + history) \<times> redis" where
  "redis_get_history e session_id =
     rbind (hgetall (session_key session_id)) (\<lambda>found.
     rbind (if found = [] then
              rbind (hset (session_key session_id) ''round_count'' 0) (\<lambda>u.
              rbind (expire (session_key session_id) REDIS_SESSION_EXPIRY) (\<lambda>u.
              rreturn [(''round_count'', 0)]))
            else rreturn found) (\<lambda>session_data.
     rbind (lrange (statements_key session_id) REDIS_MAX_HISTORY) (\<lambda>statement_history.
     rreturn \<lparr>rounds = decode_rounds e statement_history,
              round_count = (case map_of session_data ''round_count'' of None \<Rightarrow> 0 | Some n \<Rightarrow> n)\<rparr>)))"

definition get_session_history :: "env \<Rightarrow> string \<Rightarrow> world \<Rightarrow> history \<times> world" where
  "get_session_history e session_id w =
     (case redis_client w of
        None \<Rightarrow> (session_history w, w)
      | Some r \<Rightarrow>
          (case redis_get_history e session_id r of
             (Inr h, r') \<Rightarrow> (h, w\<lparr>redis_client := Some r'\<rparr>)
           | (Inl ex, r') \<Rightarrow> (session_history w, w\<lparr>redis_client := Some r'\<rparr>)))"

text \<open>
  The in-memory fallback of \<^verbatim>\<open>update_session_history\<close>: \<^verbatim>\<open>append\<close> puts the round at
  the end of the list, and \<^verbatim>\<open>rounds[-REDIS_MAX_HISTORY:]\<close> keeps the last hundred.
\<close>

definition memory_append :: "pyval \<Rightarrow> history \<Rightarrow> history" where
  "memory_append statements h =
     (let appended = rounds h @ [statements]
      in \<lparr>rounds = (if length appended > REDIS_MAX_HISTORY
                    then drop (length appended - REDIS_MAX_HISTORY) appended else appended),
          round_count = round_count h + 1\<rparr>)"

definition dumps_or_raise :: "env \<Rightarrow> pyval \<Rightarrow> redis \<Rightarrow> (exc + string) \<times> redis" where
  "dumps_or_raise e v r =
     (case json_dumps e v of
        None \<Rightarrow> (Inl (TypeError ''Object is not JSON serializable''), r)
      | Some s \<Rightarrow> (Inr s, r))"

definition redis_update_history :: "env \<Rightarrow> string \<Rightarrow> pyval \<Rightarrow> redis \<Rightarrow> (exc + unit) \<times> redis" where
  "redis_update_history e session_id statements =
     rbind (hincrby (session_key session_id) ''round_count'' 1) (\<lambda>new_count.
     rbind (expire (session_key session_id) REDIS_SESSION_EXPIRY) (\<lambda>u.
     rbind (dumps_or_raise e statements) (\<lambda>statements_json.
     rbind (lpush (statements_key session_id) statements_json) (\<lambda>u.
     rbind (ltrim (statements_key session_id) REDIS_MAX_HISTORY) (\<lambda>u.
     rbind (expire (statements_key session_id) REDIS_SESSION_EXPIRY) (\<lambda>u.
     rbind (llen (statements_key session_id)) (\<lambda>history_size.
     rreturn ())))))))"

definition update_session_history :: "env \<Rightarrow> string \<Rightarrow> pyval \<Rightarrow> world \<Rightarrow> world" where
  "update_session_history e session_id statements w =
     (case redis_client w of
        None \<Rightarrow> w\<lparr>session_history := memory_append statements (session_history w)\<rparr>
      | Some r \<Rightarrow>
          (case redis_update_history e session_id statements r of
             (Inr u, r') \<Rightarrow> w\<lparr>redis_client := Some r'\<rparr>
           | (Inl ex, r') \<Rightarrow>
               w\<lparr>redis_client := Some r',
                 session_history := memory_append statements (session_history w)\<rparr>))"

subsection \<open>The reset and new actions of \<^verbatim>\<open>manage_session\<close>\<close>

definition redis_reset :: "string \<Rightarrow> redis \<Rightarrow> (exc + int) \<times> redis" where
  "redis_reset session_id =
     rbind (hget (session_key session_id) ''round_count'') (\<lambda>stored.
     rbind (delete (session_key session_id)) (\<lambda>u.
     rbind (delete (statements_key session_id)) (\<lambda>u.
     rbind (delete (prompt_key session_id)) (\<lambda>u.
     rbind (delete (response_key session_id)) (\<lambda>u.
     rbind (hset (session_key session_id) ''round_count'' 0) (\<lambda>u.
     rbind (expire (session_key session_id) REDIS_SESSION_EXPIRY) (\<lambda>u.
     rreturn (case stored of None \<Rightarrow> 0 | Some n \<Rightarrow> n))))))))"

definition reset_message :: "int \<Rightarrow> pyval" where
  "reset_message n = PDict [(''message'', PStr (''Session reset. Cleared '' @ str_int n @ '' rounds.''))]"

text \<open>
  The in-memory branch of the reset action reads \<^verbatim>\<open>session_history["round_count"]\<close> and
  then assigns \<^verbatim>\<open>session_history = {...}\<close>. \<^verbatim>\<open>manage_session\<close> declares only
  \<^verbatim>\<open>global current_session_id\<close>, so the assignment makes \<^verbatim>\<open>session_history\<close> a local
  variable of the whole function: the argument below is that local variable (\<open>None\<close>:
  not yet bound), and the result is the response data with the local variable afterwards.
  The module's history is not touched either way.
\<close>

definition reset_in_memory :: "history option \<Rightarrow> (exc + pyval) \<times> history option" where
  "reset_in_memory local_session_history =
     (case local_session_history of
        None \<Rightarrow>
          (Inl (UnboundLocalError (''cannot access local variable '' @ apostrophe
                  @ ''session_history'' @ apostrophe @ '' where it is not associated with a value'')),
           None)
      | Some h \<Rightarrow> (Inr (reset_message (round_count h)), Some \<lparr>rounds = [], round_count = 0\<rparr>))"

text \<open>
  The POST branch of \<^verbatim>\<open>manage_session\<close>: the response data with the status code, or
  the exception that leaves the handler.
\<close>

definition manage_session_post :: "env \<Rightarrow> pyval \<Rightarrow> world \<Rightarrow> (exc + pyval \<times> int) \<times> world" where
  "manage_session_post e action w =
     (case get_session_id e w of (session_id, w1) \<Rightarrow>
        if action = PStr ''reset'' then
          (case redis_client w1 of
             Some r \<Rightarrow>
               (case redis_reset session_id r of
                  (Inr cleared, r') \<Rightarrow> (Inr (reset_message cleared, 200), w1\<lparr>redis_client := Some r'\<rparr>)
                | (Inl ex, r') \<Rightarrow> (Inr (PDict [], 200), w1\<lparr>redis_client := Some r'\<rparr>))
           | None \<Rightarrow>
               (case reset_in_memory None of
                  (Inl ex, l) \<Rightarrow> (Inl ex, w1)
                | (Inr response_data, l) \<Rightarrow> (Inr (response_data, 200), w1)))
        else if action = PStr ''new'' then
          (let new_id = uuid4 e (uuids_drawn w1)
           in (Inr (PDict [(''message'', PStr ''New session created''), (''session_id'', PStr new_id)], 200),
               w1\<lparr>current_session_id := Some new_id, uuids_drawn := Suc (uuids_drawn w1)\<rparr>))
        else
          (Inr (PDict [(''error'', PStr (''Invalid action. Use '' @ apostrophe @ ''reset'' @ apostrophe
                  @ '' to clear session history or '' @ apostrophe @ ''new'' @ apostrophe
                  @ '' to create a new session.''))], 400), w1))"

section \<open>Round generation\<close>

subsection \<open>The history context of the prompt\<close>

definition render_statement :: "pyval \<Rightarrow> exc + string" where
  "render_statement stmt =
     (case py_get stmt ''isLie'' (PBool False) of
        Inl ex \<Rightarrow> Inl ex
      | Inr is_lie \<Rightarrow>
          (case py_get stmt ''text'' (PStr ''Unknown'') of
             Inl ex \<Rightarrow> Inl ex
           | Inr text \<Rightarrow>
               Inr (''- '' @ (if truthy is_lie then ''LIE'' else ''TRUTH'') @ '': '' @ py_str text @ nl)))"

fun render_statements :: "pyval list \<Rightarrow> exc + string" where
  "render_statements [] = Inr []"
| "render_statements (stmt # stmts) =
     (case render_statement stmt of
        Inl ex \<Rightarrow> Inl ex
      | Inr line \<Rightarrow>
          (case render_statements stmts of Inl ex \<Rightarrow> Inl ex | Inr others \<Rightarrow> Inr (line @ others)))"

text \<open>
  The loop over \<^verbatim>\<open>enumerate(recent_rounds)\<close>; the first argument is the label
  \<^verbatim>\<open>round_idx\<close> of the round at the head of the list.
\<close>

fun render_rounds :: "int \<Rightarrow> pyval list \<Rightarrow> exc + string" where
  "render_rounds round_idx [] = Inr []"
| "render_rounds round_idx (prev_round # rest) =
     (case py_iter prev_round of
        Inl ex \<Rightarrow> Inl ex
      | Inr stmts \<Rightarrow>
          (case render_statements stmts of
             Inl ex \<Rightarrow> Inl ex
           | Inr body \<Rightarrow>
               (case render_rounds (round_idx + 1) rest of
                  Inl ex \<Rightarrow> Inl ex
                | Inr others \<Rightarrow> Inr (''Round '' @ str_int round_idx @ '':'' @ nl @ body @ others))))"

definition recent_rounds :: "history \<Rightarrow> pyval list" where
  "recent_rounds h = take 15 (rounds h)"

definition overlap_instruction :: "nat \<Rightarrow> string" where
  "overlap_instruction n =
     nl @ ''IMPORTANT: You'' @ apostrophe @ ''ve now seen '' @ str_nat n
     @ '' previous rounds. Please generate completely new statements that don'' @ apostrophe
     @ ''t overlap with ANY previous topics or facts.''"

definition build_history_text :: "history \<Rightarrow> exc + string" where
  "build_history_text h =
     (if length (rounds h) > 0 then
        (case render_rounds (round_count h - int (length (recent_rounds h)) + 0 + 1) (recent_rounds h) of
           Inl ex \<Rightarrow> Inl ex
         | Inr body \<Rightarrow>
             Inr (''Here are the previous statements used in this session:'' @ nl @ body
                  @ overlap_instruction (length (recent_rounds h))))
      else Inr [])"

subsection \<open>The prompt\<close>

definition easter_egg_instruction :: "int \<Rightarrow> string" where
  "easter_egg_instruction round_number =
     (if round_number mod 3 = 0 then
        nl @ nl @ ''IMPORTANT: This is set number '' @ str_int round_number
        @ '', which is divisible by 3. PLEASE INCLUDE AN EASTER EGG about Erin and John Poore as described in instruction #7.''
      else [])"

definition prompt_to_send :: "string \<Rightarrow> string \<Rightarrow> int \<Rightarrow> string" where
  "prompt_to_send prompt history_text round_number =
     (if history_text \<noteq> [] then
        prompt @ nl @ nl @ history_text @ nl @ nl
        @ ''IMPORTANT: DO NOT repeat any of the facts or topics above. This is round ''
        @ str_int round_number @ '', so ensure complete variety.''
        @ easter_egg_instruction round_number
      else
        prompt @ nl @ nl @ ''This is round '' @ str_int round_number @ ''.''
        @ easter_egg_instruction round_number)"

definition prompt_log :: "string \<Rightarrow> string \<Rightarrow> int \<Rightarrow> string \<Rightarrow> pyval" where
  "prompt_log prompt history_text round_number timestamp =
     PDict [(''round_number'', PInt round_number),
            (''prompt'', PStr prompt),
            (''history_context'', if history_text \<noteq> [] then PStr history_text else PNone),
            (''full_prompt'', PStr (prompt_to_send prompt history_text round_number)),
            (''is_easter_egg_set'', PBool (round_number mod 3 = 0)),
            (''timestamp'', PStr timestamp)]"

definition response_log :: "int \<Rightarrow> string \<Rightarrow> string \<Rightarrow> pyval" where
  "response_log round_number response_text timestamp =
     PDict [(''round_number'', PInt round_number),
            (''response'', PStr response_text),
            (''timestamp'', PStr timestamp)]"

text \<open>
  Storing a prompt or response log: only with Redis, and inside a \<^verbatim>\<open>try\<close> whose
  \<^verbatim>\<open>except\<close> only logs, so a failure leaves what the commands before it did.
\<close>

definition store_log :: "env \<Rightarrow> string \<Rightarrow> pyval \<Rightarrow> world \<Rightarrow> world" where
  "store_log e key entry w =
     (case redis_client w of
        None \<Rightarrow> w
      | Some r \<Rightarrow>
          w\<lparr>redis_client := Some (snd (
              (rbind (dumps_or_raise e entry) (\<lambda>entry_json.
               rbind (lpush key entry_json) (\<lambda>u.
               rbind (ltrim key REDIS_MAX_HISTORY) (\<lambda>u.
               expire key REDIS_SESSION_EXPIRY)))) r))\<rparr>)"

subsection \<open>Extracting and parsing the response\<close>

definition extract_json_text :: "string \<Rightarrow> string" where
  "extract_json_text response_text =
     (let code_blocks = findall_code_blocks response_text
      in if code_blocks \<noteq> [] then py_strip (last code_blocks)
         else
           (let json_start = py_find (CHR ''{'') response_text;
                json_end = py_rfind (CHR ''}'') response_text + 1
            in if json_start \<ge> 0 \<and> json_end > json_start
               then py_slice response_text json_start json_end
               else response_text))"

definition cleaned_json :: "string \<Rightarrow> string" where
  "cleaned_json potential_json =
     (let stripped = py_strip potential_json
      in if has_escaped_quote stripped then replace_escaped_quotes stripped else stripped)"

text \<open>
  The first \<^verbatim>\<open>json.loads\<close> only chooses the text; the value comes from the second
  call, after the inner \<^verbatim>\<open>try\<close>.
\<close>

definition parse_json_text :: "env \<Rightarrow> string \<Rightarrow> string + pyval" where
  "parse_json_text e potential_json =
     (let json_text = (case json_loads e potential_json of
                         Inr parsed \<Rightarrow> potential_json
                       | Inl msg \<Rightarrow> cleaned_json potential_json)
      in json_loads e json_text)"

fun is_substring :: "string \<Rightarrow> string \<Rightarrow> bool" where
  "is_substring p [] = (p = [])"
| "is_substring p (c # s) = (startswith p (c # s) \<or> is_substring p s)"

text \<open>\<^verbatim>\<open>statements = []\<close>, then \<^verbatim>\<open>round_data["statements"]\<close> if \<^verbatim>\<open>"statements" in round_data\<close>.\<close>

definition get_statements :: "pyval \<Rightarrow> exc + pyval" where
  "get_statements round_data =
     (case round_data of
        PDict kvs \<Rightarrow> (case map_of kvs ''statements'' of None \<Rightarrow> Inr (PList []) | Some v \<Rightarrow> Inr v)
      | PList xs \<Rightarrow>
          (if PStr ''statements'' \<in> set xs
           then Inl (TypeError ''list indices must be integers or slices, not str'')
           else Inr (PList []))
      | PStr s \<Rightarrow>
          (if is_substring ''statements'' s
           then Inl (TypeError (''string indices must be integers, not '' @ apostrophe @ ''str'' @ apostrophe))
           else Inr (PList []))
      | _ \<Rightarrow> Inl (TypeError (''argument of type '' @ apostrophe @ type_name round_data @ apostrophe
                             @ '' is not iterable'')))"

text \<open>\<^verbatim>\<open>text.split(" ")\<close>\<close>

fun split_space :: "string \<Rightarrow> string list" where
  "split_space [] = [[]]"
| "split_space (c # s) =
     (if c = CHR '' '' then [] # split_space s
      else (case split_space s of [] \<Rightarrow> [[c]] | x # xs \<Rightarrow> (c # x) # xs))"

definition topic_of :: "pyval \<Rightarrow> exc + string" where
  "topic_of stmt =
     (case py_get stmt ''text'' (PStr []) of
        Inl ex \<Rightarrow> Inl ex
      | Inr text \<Rightarrow>
          (case text of
             PStr s \<Rightarrow> Inr (py_join '' '' (take 3 (split_space s)) @ ''...'')
           | _ \<Rightarrow> Inl (no_attribute text ''split'')))"

fun topics_of :: "pyval list \<Rightarrow> exc + string list" where
  "topics_of [] = Inr []"
| "topics_of (stmt # stmts) =
     (case topic_of stmt of
        Inl ex \<Rightarrow> Inl ex
      | Inr topic \<Rightarrow> (case topics_of stmts of Inl ex \<Rightarrow> Inl ex | Inr others \<Rightarrow> Inr (topic # others)))"

definition statement_topics :: "pyval \<Rightarrow> exc + string list" where
  "statement_topics statements =
     (case py_iter statements of Inl ex \<Rightarrow> Inl ex | Inr stmts \<Rightarrow> topics_of stmts)"

subsection \<open>\<^verbatim>\<open>generate_new_round\<close>\<close>

definition error_result :: "string \<Rightarrow> pyval" where
  "error_result message = PDict [(''error'', PStr message)]"

text \<open>The callers' test \<^verbatim>\<open>isinstance(round_data, dict) and "error" in round_data\<close>.\<close>

definition is_error_result :: "pyval \<Rightarrow> bool" where
  "is_error_result v = (case v of PDict kvs \<Rightarrow> map_of kvs ''error'' \<noteq> None | _ \<Rightarrow> False)"

text \<open>The size of the history is read from Redis for the log, in a \<^verbatim>\<open>try\<close> of its own.\<close>

definition log_history_size :: "string \<Rightarrow> world \<Rightarrow> world" where
  "log_history_size session_id w =
     (case redis_client w of
        None \<Rightarrow> w
      | Some r \<Rightarrow> w\<lparr>redis_client := Some (snd (llen (statements_key session_id) r))\<rparr>)"

text \<open>
  What follows a successful parse: the statements are taken from the round, appended to the
  session history, and then their topics are computed for the log. \<open>Inl\<close> is an exception
  on its way to the handlers of the outer \<^verbatim>\<open>try\<close>.
\<close>

definition store_round :: "env \<Rightarrow> pyval \<Rightarrow> world \<Rightarrow> (exc + pyval) \<times> world" where
  "store_round e round_data w =
     (case get_statements round_data of
        Inl ex \<Rightarrow> (Inl ex, w)
      | Inr statements \<Rightarrow>
          (case get_session_id e w of (session_id, w1) \<Rightarrow>
             (let w2 = update_session_history e session_id statements w1
              in case statement_topics statements of
                   Inl ex \<Rightarrow> (Inl ex, w2)
                 | Inr topics \<Rightarrow> (Inr round_data, log_history_size session_id w2))))"

text \<open>
  The inner \<^verbatim>\<open>try\<close> with its \<^verbatim>\<open>except json.JSONDecodeError\<close>, and the
  \<^verbatim>\<open>except Exception\<close> of the outer one for everything else raised there.
\<close>

definition process_response :: "env \<Rightarrow> string \<Rightarrow> world \<Rightarrow> pyval \<times> world" where
  "process_response e response_text w =
     (case parse_json_text e (extract_json_text response_text) of
        Inl msg \<Rightarrow> (error_result (''Failed to parse response from LLM: '' @ msg), w)
      | Inr round_data \<Rightarrow>
          (case store_round e round_data w of
             (Inl ex, w') \<Rightarrow> (error_result (''Unexpected API Error: '' @ str_exc ex), w')
           | (Inr returned, w') \<Rightarrow> (returned, w')))"

text \<open>
  The call of the model and what follows it. The prompt is recorded in \<open>api_log\<close>, so a
  run that leaves \<open>api_log\<close> as it was has not called the model.
\<close>

definition call_model ::
  "env \<Rightarrow> (nat \<Rightarrow> string \<Rightarrow> api_outcome) \<Rightarrow> string \<Rightarrow> int \<Rightarrow> string \<Rightarrow> world \<Rightarrow> pyval \<times> world" where
  "call_model e client session_id round_number full_prompt w =
     (let outcome = client (length (api_log w)) full_prompt;
          w1 = w\<lparr>api_log := api_log w @ [full_prompt]\<rparr>
      in case outcome of
           Reply response_text \<Rightarrow>
             process_response e response_text
               (store_log e (response_key session_id)
                  (response_log round_number response_text (isoformat_now e (clock w1)))
                  (w1\<lparr>clock := Suc (clock w1)\<rparr>))
         | APIConnectionError m \<Rightarrow> (error_result (''API Connection Error: '' @ m), w1)
         | RateLimitError m \<Rightarrow> (error_result (''API Rate Limit Error: '' @ m), w1)
         | AuthenticationError m \<Rightarrow>
             (error_result (''API Authentication Error: '' @ m @ ''. Check your API key.''), w1)
         | APIStatusError status_code \<Rightarrow>
             (error_result (''API Status Error: '' @ str_int status_code), w1)
         | OtherError m \<Rightarrow> (error_result (''Unexpected API Error: '' @ m), w1))"

text \<open>
  \<^verbatim>\<open>generate_new_round\<close>: the round or error dict it returns, or (\<open>Inl\<close>) the
  exception it raises: the history context is built before the \<^verbatim>\<open>try\<close>, so an
  exception there reaches the caller.
\<close>

definition generate_new_round :: "env \<Rightarrow> world \<Rightarrow> (exc + pyval) \<times> world" where
  "generate_new_round e w =
     (case anthropic_client e of
        None \<Rightarrow> (Inr (error_result ''Anthropic client not initialized. Check API key.''), w)
      | Some client \<Rightarrow>
          (case (case claude_prompt e of None \<Rightarrow> None
                 | Some p \<Rightarrow> if p = [] then None else Some p) of
             None \<Rightarrow> (Inr (error_result ''Claude prompt not loaded. Check config.yaml.''), w)
           | Some prompt \<Rightarrow>
               (case get_session_id e w of (session_id, w1) \<Rightarrow>
                case get_session_history e session_id w1 of (h, w2) \<Rightarrow>
                  (let round_number = round_count h + 1
                   in case build_history_text h of
                        Inl ex \<Rightarrow> (Inl ex, w2)
                      | Inr history_text \<Rightarrow>
                          (let w3 = store_log e (prompt_key session_id)
                                      (prompt_log prompt history_text round_number
                                         (isoformat_now e (clock w2)))
                                      (w2\<lparr>clock := Suc (clock w2)\<rparr>)
                           in case call_model e client session_id round_number
                                     (prompt_to_send prompt history_text round_number) w3 of
                                (returned, w4) \<Rightarrow> (Inr returned, w4))))))"

section \<open>Broadcast\<close>





section \<open>Preloading\<close>

text \<open>
  One run of \<^verbatim>\<open>preload_next_round\<close>, taken as a whole: the check and set under the
  lock, the generation, the store of a good round, and the \<^verbatim>\<open>finally\<close> that clears
  the flag. \<open>Inl\<close> is an exception that ends the thread.
\<close>

definition preload_next_round :: "env \<Rightarrow> world \<Rightarrow> (exc + unit) \<times> world" where
  "preload_next_round e w =
     (if is_preloading w \<or> preloaded_round w \<noteq> PNone then (Inr (), w)
      else
        (case generate_new_round e (w\<lparr>is_preloading := True\<rparr>) of
           (Inl ex, w1) \<Rightarrow> (Inl ex, w1\<lparr>is_preloading := False\<rparr>)
         | (Inr next_round, w1) \<Rightarrow>
             (if is_error_result next_round then (Inr (), w1\<lparr>is_preloading := False\<rparr>)
              else if truthy next_round then
                (Inr (), w1\<lparr>preloaded_round := next_round, is_preloading := False\<rparr>)
              else (Inr (), w1\<lparr>is_preloading := False\<rparr>))))"

text \<open>The idle branch of \<^verbatim>\<open>background_task\<close> starts a preload thread when this holds.\<close>

definition idle_starts_preload :: "world \<Rightarrow> bool" where
  "idle_starts_preload w = (preloaded_round w = PNone \<and> \<not> is_preloading w)"

section \<open>Properties and fixtures\<close>

text \<open>
  The invariant the specification states for a round: exactly three statements, one with
  \<^verbatim>\<open>isLie\<close> true and two with \<^verbatim>\<open>isLie\<close> false.
\<close>

definition lie_flag :: "pyval \<Rightarrow> pyval option" where
  "lie_flag stmt = (case stmt of PDict kvs \<Rightarrow> map_of kvs ''isLie'' | _ \<Rightarrow> None)"

definition exactly_one_lie :: "pyval \<Rightarrow> bool" where
  "exactly_one_lie round_data =
     (case round_data of
        PDict kvs \<Rightarrow>
          (case map_of kvs ''statements'' of
             Some (PList stmts) \<Rightarrow>
               length stmts = 3
               \<and> length (filter (\<lambda>s. lie_flag s = Some (PBool True)) stmts) = 1
               \<and> length (filter (\<lambda>s. lie_flag s = Some (PBool False)) stmts) = 2
           | _ \<Rightarrow> False)
      | _ \<Rightarrow> False)"

text \<open>
  The globals of the scheduler and of the broadcast hub: round generation and the history
  store leave them alone.
\<close>

definition control_unchanged :: "world \<Rightarrow> world \<Rightarrow> bool" where
  "control_unchanged w w' =
     (preloaded_round w' = preloaded_round w \<and> is_preloading w' = is_preloading w
      \<and> new_round_requested w' = new_round_requested w \<and> message_queues w' = message_queues w)"

text \<open>
  What the store holds for a session: the count in the session hash and the list of
  serialised rounds (nothing, where the key does not exist); and what both backends hold.
  A store action \<open>preserves\<close> an observation when no run of it changes the observation.
\<close>

definition stored_count :: "redis \<Rightarrow> string \<Rightarrow> int" where
  "stored_count r session_id =
     (case hashes r (session_key session_id) of
        None \<Rightarrow> 0
      | Some h \<Rightarrow> (case map_of h ''round_count'' of None \<Rightarrow> 0 | Some n \<Rightarrow> n))"

definition stored_rounds :: "redis \<Rightarrow> string \<Rightarrow> string list" where
  "stored_rounds r session_id =
     (case lists r (statements_key session_id) of None \<Rightarrow> [] | Some l \<Rightarrow> l)"

definition history_view :: "world \<Rightarrow> string \<Rightarrow> history \<times> (int \<times> string list) option" where
  "history_view w session_id =
     (session_history w,
      case redis_client w of
        None \<Rightarrow> None
      | Some r \<Rightarrow> Some (stored_count r session_id, stored_rounds r session_id))"

definition preserves :: "(redis \<Rightarrow> 'q) \<Rightarrow> (redis \<Rightarrow> 'a \<times> redis) \<Rightarrow> bool" where
  "preserves Q m = (\<forall>r. Q (snd (m r)) = Q r)"

abbreviation stored :: "string \<Rightarrow> redis \<Rightarrow> int \<times> string list" where
  "stored sid r \<equiv> (stored_count r sid, stored_rounds r sid)"

text \<open>
  Concrete inputs for the evaluations below. \<open>fixture_loads\<close> and \<open>fixture_dumps\<close> agree
  with \<^verbatim>\<open>json.loads\<close> and \<^verbatim>\<open>json.dumps\<close> on the texts and values they are applied
  to there: the listed ones, and for \<open>fixture_loads\<close> the texts \<^verbatim>\<open>hello\<close> and
  \<^verbatim>\<open>to fence code.\<close>, which are no JSON documents: the decoder stops at their first
  character.
\<close>

definition statement :: "string \<Rightarrow> bool \<Rightarrow> string \<Rightarrow> pyval" where
  "statement text is_lie explanation =
     PDict [(''text'', PStr text), (''isLie'', PBool is_lie), (''explanation'', PStr explanation)]"

definition statements_abc :: pyval where
  "statements_abc = PList [statement ''A'' False ''x'', statement ''B'' True ''y'', statement ''C'' False ''z'']"

definition statements_def :: pyval where
  "statements_def = PList [statement ''D'' True ''u'', statement ''E'' False ''v'', statement ''F'' False ''w'']"

definition round_abc :: pyval where
  "round_abc = PDict [(''statements'', statements_abc)]"

definition numbered_round :: "nat \<Rightarrow> pyval" where
  "numbered_round n =
     PList [statement (''fact '' @ str_nat n @ ''a'') False ''x'',
            statement (''fact '' @ str_nat n @ ''b'') True ''y'',
            statement (''fact '' @ str_nat n @ ''c'') False ''z'']"

definition text_round_abc :: string where
  "text_round_abc = ''{'' @ [CHR 0x22] @ ''statements'' @ [CHR 0x22] @ '': [{'' @ [CHR 0x22] @ ''text'' @ [CHR 0x22] @ '': '' @ [CHR 0x22] @ ''A'' @ [CHR 0x22] @ '', '' @ [CHR 0x22] @ ''isLie'' @ [CHR 0x22] @ '': false, '' @ [CHR 0x22] @ ''explanation'' @ [CHR 0x22] @ '': '' @ [CHR 0x22] @ ''x'' @ [CHR 0x22] @ ''}, {'' @ [CHR 0x22] @ ''text'' @ [CHR 0x22] @ '': '' @ [CHR 0x22] @ ''B'' @ [CHR 0x22] @ '', '' @ [CHR 0x22] @ ''isLie'' @ [CHR 0x22] @ '': true, '' @ [CHR 0x22] @ ''explanation'' @ [CHR 0x22] @ '': '' @ [CHR 0x22] @ ''y'' @ [CHR 0x22] @ ''}, {'' @ [CHR 0x22] @ ''text'' @ [CHR 0x22] @ '': '' @ [CHR 0x22] @ ''C'' @ [CHR 0x22] @ '', '' @ [CHR 0x22] @ ''isLie'' @ [CHR 0x22] @ '': false, '' @ [CHR 0x22] @ ''explanation'' @ [CHR 0x22] @ '': '' @ [CHR 0x22] @ ''z'' @ [CHR 0x22] @ ''}]}''"

definition text_no_statements :: string where
  "text_no_statements = ''{'' @ [CHR 0x22] @ ''statements'' @ [CHR 0x22] @ '': []}''"

definition text_number_statement :: string where
  "text_number_statement = ''{'' @ [CHR 0x22] @ ''statements'' @ [CHR 0x22] @ '': [1]}''"


definition text_new_round_event :: string where
  "text_new_round_event = ''{'' @ [CHR 0x22] @ ''type'' @ [CHR 0x22] @ '': '' @ [CHR 0x22] @ ''new_round'' @ [CHR 0x22] @ '', '' @ [CHR 0x22] @ ''payload'' @ [CHR 0x22] @ '': {'' @ [CHR 0x22] @ ''statements'' @ [CHR 0x22] @ '': [{'' @ [CHR 0x22] @ ''text'' @ [CHR 0x22] @ '': '' @ [CHR 0x22] @ ''A'' @ [CHR 0x22] @ '', '' @ [CHR 0x22] @ ''isLie'' @ [CHR 0x22] @ '': false, '' @ [CHR 0x22] @ ''explanation'' @ [CHR 0x22] @ '': '' @ [CHR 0x22] @ ''x'' @ [CHR 0x22] @ ''}, {'' @ [CHR 0x22] @ ''text'' @ [CHR 0x22] @ '': '' @ [CHR 0x22] @ ''B'' @ [CHR 0x22] @ '', '' @ [CHR 0x22] @ ''isLie'' @ [CHR 0x22] @ '': true, '' @ [CHR 0x22] @ ''explanation'' @ [CHR 0x22] @ '': '' @ [CHR 0x22] @ ''y'' @ [CHR 0x22] @ ''}, {'' @ [CHR 0x22] @ ''text'' @ [CHR 0x22] @ '': '' @ [CHR 0x22] @ ''C'' @ [CHR 0x22] @ '', '' @ [CHR 0x22] @ ''isLie'' @ [CHR 0x22] @ '': false, '' @ [CHR 0x22] @ ''explanation'' @ [CHR 0x22] @ '': '' @ [CHR 0x22] @ ''z'' @ [CHR 0x22] @ ''}]}}''"

definition text_error_event :: string where
  "text_error_event = ''{'' @ [CHR 0x22] @ ''type'' @ [CHR 0x22] @ '': '' @ [CHR 0x22] @ ''error'' @ [CHR 0x22] @ '', '' @ [CHR 0x22] @ ''message'' @ [CHR 0x22] @ '': '' @ [CHR 0x22] @ ''API Authentication Error'' @ [CHR 0x22] @ ''}''"

definition text_history_abc :: string where
  "text_history_abc = ''Here are the previous statements used in this session:'' @ [CHR 0x0A] @ ''Round 2:'' @ [CHR 0x0A] @ ''- TRUTH: A'' @ [CHR 0x0A] @ ''- LIE: B'' @ [CHR 0x0A] @ ''- TRUTH: C'' @ [CHR 0x0A, CHR 0x0A] @ ''IMPORTANT: You'' @ [CHR 0x27] @ ''ve now seen 1 previous rounds. Please generate completely new statements that don'' @ [CHR 0x27] @ ''t overlap with ANY previous topics or facts.''"

text \<open>
  Replies for the extraction: \<^verbatim>\<open>{"statements": []}\<close> with a backslash before each
  of its two quotes; the document \<^verbatim>\<open>{"a": "x```y"}\<close>, whose string holds a fence, and what is left of it when
  it is cut at that fence; that document in a fenced block between two lines of prose; two
  fenced blocks, the first tagged and the second not; and a tagged block after prose that
  itself holds a fence.
\<close>

definition text_escaped_no_statements :: string where
  "text_escaped_no_statements =
     ''{'' @ [CHR 0x5C, CHR 0x22] @ ''statements'' @ [CHR 0x5C, CHR 0x22] @ '': []}''"

definition text_inner_fence :: string where
  "text_inner_fence =
     ''{'' @ [CHR 0x22] @ ''a'' @ [CHR 0x22] @ '': '' @ [CHR 0x22] @ ''x'' @ [CHR 0x60, CHR 0x60, CHR 0x60]
       @ ''y'' @ [CHR 0x22] @ ''}''"

definition text_cut_at_inner_fence :: string where
  "text_cut_at_inner_fence = ''{'' @ [CHR 0x22] @ ''a'' @ [CHR 0x22] @ '': '' @ [CHR 0x22] @ ''x''"




definition fixture_loads :: "string \<Rightarrow> string + pyval" where
  "fixture_loads s =
     (if s = text_round_abc then Inr round_abc
      else if s = text_no_statements then Inr (PDict [(''statements'', PList [])])
      else if s = text_number_statement then Inr (PDict [(''statements'', PList [PInt 1])])
      else if s = text_inner_fence then Inr (PDict [(''a'', PStr (''x'' @ fence @ ''y''))])
      else if s = text_escaped_no_statements
      then Inl ''Expecting property name enclosed in double quotes: line 1 column 2 (char 1)''
      else if s = text_cut_at_inner_fence
      then Inl ''Unterminated string starting at: line 1 column 7 (char 6)''
      else Inl ''Expecting value: line 1 column 1 (char 0)'')"

definition fixture_dumps :: "pyval \<Rightarrow> string option" where
  "fixture_dumps v =
     (if v = PDict [(''type'', PStr ''new_round''), (''payload'', round_abc)]
      then Some text_new_round_event
      else if v = PDict [(''type'', PStr ''error''), (''message'', PStr ''API Authentication Error'')]
      then Some text_error_event
      else None)"

definition fixture_env :: "string \<Rightarrow> env" where
  "fixture_env reply =
     \<lparr>anthropic_client = Some (\<lambda>n full_prompt. Reply reply),
      claude_prompt = Some ''Generate a round.'',
      json_loads = fixture_loads,
      json_dumps = fixture_dumps,
      uuid4 = (\<lambda>n. ''session-'' @ str_nat n),
      isoformat_now = (\<lambda>n. ''2025-01-01T00:00:00'')\<rparr>"

definition memory_world :: "history \<Rightarrow> world" where
  "memory_world h =
     \<lparr>redis_client = None,
      session_history = h,
      current_session_id = Some ''test-session-id'',
      uuids_drawn = 0,
      clock = 0,
      api_log = [],
      preloaded_round = PNone,
      is_preloading = False,
      new_round_requested = False,
      message_queues = []\<rparr>"

definition empty_history :: history where
  "empty_history = \<lparr>rounds = [], round_count = 0\<rparr>"

section \<open>The history store\<close>

text \<open>
  What does hold for k appends from an empty history. On the in-memory fallback the count is
  k and the rounds are the last hundred appended, in the order of appending. On a Redis that
  answers every command, with rounds that \<^verbatim>\<open>json.dumps\<close> and \<^verbatim>\<open>json.loads\<close> take
  there and back, and k within the range of the store's 64-bit counter, the count is k and the
  rounds are the last hundred appended, newest first.
\<close>

lemma fold_memory_append:
  "rounds h = drop (length xs - REDIS_MAX_HISTORY) xs \<Longrightarrow> round_count h = int (length xs)
     \<Longrightarrow> fold memory_append rs h
         = \<lparr>rounds = drop (length (xs @ rs) - REDIS_MAX_HISTORY) (xs @ rs),
            round_count = int (length (xs @ rs))\<rparr>"
proof (induction rs arbitrary: h xs)
  case Nil
  then show ?case by simp
next
  case (Cons x rs)
  let ?h = "memory_append x h"
  have "rounds ?h = drop (length (xs @ [x]) - REDIS_MAX_HISTORY) (xs @ [x])"
  proof (cases "length xs < 100")
    case True
    with Cons.prems show ?thesis
      by (simp add: memory_append_def Let_def REDIS_MAX_HISTORY_def)
  next
    case False
    then have "Suc (length xs - 100) = length xs - 99"
      by arith
    with False Cons.prems show ?thesis
      by (simp add: memory_append_def Let_def REDIS_MAX_HISTORY_def)
  qed
  moreover have "round_count ?h = int (length (xs @ [x]))"
    using Cons.prems by (simp add: memory_append_def Let_def)
  ultimately have "fold memory_append rs ?h
      = \<lparr>rounds = drop (length ((xs @ [x]) @ rs) - REDIS_MAX_HISTORY) ((xs @ [x]) @ rs),
         round_count = int (length ((xs @ [x]) @ rs))\<rparr>"
    by (rule Cons.IH)
  then show ?case by simp
qed

lemma memory_updates:
  "redis_client w = None \<Longrightarrow>
     redis_client (fold (update_session_history e sid) rs w) = None
     \<and> session_history (fold (update_session_history e sid) rs w) = fold memory_append rs (session_history w)"
  by (induction rs arbitrary: w) (simp_all add: update_session_history_def)

lemma memory_history_after_appends:
  assumes "redis_client w = None" and "session_history w = \<lparr>rounds = [], round_count = 0\<rparr>"
  shows "fst (get_session_history e sid (fold (update_session_history e sid) rs w))
           = \<lparr>rounds = drop (length rs - REDIS_MAX_HISTORY) rs, round_count = int (length rs)\<rparr>"
proof -
  have "fold memory_append rs (session_history w)
      = \<lparr>rounds = drop (length ([] @ rs) - REDIS_MAX_HISTORY) ([] @ rs), round_count = int (length ([] @ rs))\<rparr>"
    by (rule fold_memory_append) (simp_all add: assms(2))
  then show ?thesis
    using memory_updates [OF assms(1), of e sid rs] by (simp add: get_session_history_def)
qed

lemma map_of_dict_set: "map_of (dict_set h k v) k = Some v"
  by (induction h) auto

lemma redis_update_step:
  assumes "budget r = None" and "json_dumps e x = Some s"
    and "0 \<le> stored_count r sid" and "stored_count r sid < 2 ^ 63 - 1"
  shows "\<exists>r'. redis_update_history e sid x r = (Inr (), r') \<and> budget r' = None
           \<and> stored_count r' sid = stored_count r sid + 1
           \<and> stored_rounds r' sid = take REDIS_MAX_HISTORY (s # stored_rounds r sid)"
  using assms
  by (simp add: redis_update_history_def rbind_def rreturn_def cmd_def hincrby_def expire_def
      dumps_or_raise_def lpush_def ltrim_def llen_def stored_count_def stored_rounds_def
      key_exists_def map_of_dict_set Let_def split: option.splits)

lemma redis_get_healthy:
  assumes "budget r = None"
  shows "fst (redis_get_history e sid r)
           = Inr \<lparr>rounds = decode_rounds e (take REDIS_MAX_HISTORY (stored_rounds r sid)),
                  round_count = stored_count r sid\<rparr>"
  using assms
  by (auto simp: redis_get_history_def rbind_def rreturn_def cmd_def hgetall_def hset_def expire_def
      lrange_def stored_count_def stored_rounds_def key_exists_def split: option.splits)

lemma redis_updates:
  assumes "redis_client w = Some r" and "budget r = None"
    and "\<forall>x \<in> set rs. json_dumps e x \<noteq> None"
    and "length (stored_rounds r sid) \<le> REDIS_MAX_HISTORY"
    and "0 \<le> stored_count r sid" and "stored_count r sid + int (length rs) \<le> 2 ^ 63 - 1"
  shows "\<exists>r'. redis_client (fold (update_session_history e sid) rs w) = Some r' \<and> budget r' = None
           \<and> stored_count r' sid = stored_count r sid + int (length rs)
           \<and> stored_rounds r' sid
               = take REDIS_MAX_HISTORY (rev (map (\<lambda>x. the (json_dumps e x)) rs) @ stored_rounds r sid)
           \<and> session_history (fold (update_session_history e sid) rs w) = session_history w"
  using assms
proof (induction rs arbitrary: w r)
  case Nil
  then show ?case
    by simp
next
  case (Cons x rs)
  from Cons.prems(3) obtain s where s: "json_dumps e x = Some s"
    by auto
  have below: "stored_count r sid < 2 ^ 63 - 1"
    using Cons.prems(6) by simp
  from redis_update_step [OF Cons.prems(2) s Cons.prems(5) below]
  obtain r1 where r1: "redis_update_history e sid x r = (Inr (), r1)" "budget r1 = None"
    "stored_count r1 sid = stored_count r sid + 1"
    "stored_rounds r1 sid = take REDIS_MAX_HISTORY (s # stored_rounds r sid)"
    by blast
  let ?w1 = "update_session_history e sid x w"
  have w1: "redis_client ?w1 = Some r1" "session_history ?w1 = session_history w"
    using Cons.prems(1) r1(1) by (simp_all add: update_session_history_def)
  have "length (stored_rounds r1 sid) \<le> REDIS_MAX_HISTORY"
    by (simp add: r1(4))
  moreover have "0 \<le> stored_count r1 sid" "stored_count r1 sid + int (length rs) \<le> 2 ^ 63 - 1"
    using Cons.prems(5,6) r1(3) by simp_all
  ultimately obtain r' where r': "redis_client (fold (update_session_history e sid) rs ?w1) = Some r'" "budget r' = None"
    "stored_count r' sid = stored_count r1 sid + int (length rs)"
    "stored_rounds r' sid
       = take REDIS_MAX_HISTORY (rev (map (\<lambda>x. the (json_dumps e x)) rs) @ stored_rounds r1 sid)"
    "session_history (fold (update_session_history e sid) rs ?w1) = session_history ?w1"
    using Cons.IH [OF w1(1) r1(2)] Cons.prems(3) by auto
  have "take REDIS_MAX_HISTORY (rev (map (\<lambda>x. the (json_dumps e x)) rs) @ take REDIS_MAX_HISTORY (s # stored_rounds r sid))
      = take REDIS_MAX_HISTORY (rev (map (\<lambda>x. the (json_dumps e x)) rs) @ s # stored_rounds r sid)"
    by (simp add: take_all_iff min_def)
  with r' r1 w1 s show ?case
    by simp
qed

lemma decode_dumped:
  "\<forall>x \<in> set xs. \<exists>s. json_dumps e x = Some s \<and> json_loads e s = Inr x
     \<Longrightarrow> decode_rounds e (map (\<lambda>x. the (json_dumps e x)) xs) = xs"
  by (induction xs) auto

lemma redis_history_after_appends:
  assumes "redis_client w = Some r" and "budget r = None"
    and "hashes r (session_key sid) = None" and "lists r (statements_key sid) = None"
    and rt: "\<forall>x \<in> set rs. \<exists>s. json_dumps e x = Some s \<and> json_loads e s = Inr x"
    and below: "int (length rs) \<le> 2 ^ 63 - 1"
  shows "fst (get_session_history e sid (fold (update_session_history e sid) rs w))
           = \<lparr>rounds = take REDIS_MAX_HISTORY (rev rs), round_count = int (length rs)\<rparr>"
proof -
  have fresh: "stored_count r sid = 0" "stored_rounds r sid = []"
    using assms(3,4) by (simp_all add: stored_count_def stored_rounds_def)
  have d: "\<forall>x \<in> set rs. json_dumps e x \<noteq> None"
    using rt by auto
  from redis_updates [OF assms(1,2) d, of sid] fresh below
  obtain r' where r': "redis_client (fold (update_session_history e sid) rs w) = Some r'" "budget r' = None"
    "stored_count r' sid = int (length rs)"
    "stored_rounds r' sid = take REDIS_MAX_HISTORY (rev (map (\<lambda>x. the (json_dumps e x)) rs))"
    by auto
  have "\<forall>x \<in> set (take REDIS_MAX_HISTORY (rev rs)). \<exists>s. json_dumps e x = Some s \<and> json_loads e s = Inr x"
    using rt by (auto dest: in_set_takeD)
  from decode_dumped [OF this]
  have "decode_rounds e (take REDIS_MAX_HISTORY (stored_rounds r' sid)) = take REDIS_MAX_HISTORY (rev rs)"
    by (simp add: r'(4) rev_map take_map)
  with redis_get_healthy [OF r'(2), of e sid] r'(3)
  have "fst (redis_get_history e sid r')
      = Inr \<lparr>rounds = take REDIS_MAX_HISTORY (rev rs), round_count = int (length rs)\<rparr>"
    by simp
  then show ?thesis
    using r'(1) by (auto simp: get_session_history_def split: prod.splits sum.splits)
qed

lemma newest_first: "rs \<noteq> [] \<Longrightarrow> hd (take REDIS_MAX_HISTORY (rev rs)) = last rs"
  by (simp add: REDIS_MAX_HISTORY_def hd_rev)

lemma redis_reset_then_get:
  assumes "redis_client w = Some r" and "budget r = None"
    and "current_session_id w = Some sid" and "sid \<noteq> []"
  shows "\<exists>w'. manage_session_post e (PStr ''reset'') w = (Inr (reset_message (stored_count r sid), 200), w')
           \<and> current_session_id w' = Some sid
           \<and> fst (get_session_history e sid w') = \<lparr>rounds = [], round_count = 0\<rparr>"
proof -
  have s: "get_session_id e w = (sid, w)"
    using assms(3,4) by (simp add: get_session_id_def)
  obtain r1 where r1: "redis_reset sid r = (Inr (stored_count r sid), r1)" "budget r1 = None"
    "stored_count r1 sid = 0" "stored_rounds r1 sid = []"
    using assms(2)
    by (simp add: redis_reset_def rbind_def rreturn_def cmd_def hget_def delete_def hset_def expire_def
        stored_count_def stored_rounds_def key_exists_def split: option.splits)
  let ?w' = "w\<lparr>redis_client := Some r1\<rparr>"
  have m: "manage_session_post e (PStr ''reset'') w = (Inr (reset_message (stored_count r sid), 200), ?w')"
    using s assms(1) r1(1) by (simp add: manage_session_post_def)
  have "fst (redis_get_history e sid r1) = Inr \<lparr>rounds = [], round_count = 0\<rparr>"
    using redis_get_healthy [OF r1(2), of e sid] r1(3,4) by simp
  then have "fst (get_session_history e sid ?w') = \<lparr>rounds = [], round_count = 0\<rparr>"
    by (auto simp: get_session_history_def split: prod.splits sum.splits)
  with m assms(3) show ?thesis
    by simp
qed

lemma memory_recent_rounds:
  assumes "redis_client w = None" and "session_history w = \<lparr>rounds = [], round_count = 0\<rparr>"
  shows "recent_rounds (fst (get_session_history e sid (fold (update_session_history e sid) rs w)))
           = take 15 (drop (length rs - REDIS_MAX_HISTORY) rs)"
  by (simp add: memory_history_after_appends [OF assms] recent_rounds_def)

lemma redis_recent_rounds:
  assumes "redis_client w = Some r" and "budget r = None"
    and "hashes r (session_key sid) = None" and "lists r (statements_key sid) = None"
    and "\<forall>x \<in> set rs. \<exists>s. json_dumps e x = Some s \<and> json_loads e s = Inr x"
    and "int (length rs) \<le> 2 ^ 63 - 1"
  shows "recent_rounds (fst (get_session_history e sid (fold (update_session_history e sid) rs w)))
           = take 15 (rev rs)"
  by (simp add: redis_history_after_appends [OF assms] recent_rounds_def REDIS_MAX_HISTORY_def)

text \<open>
  Claim C1 (k appends from an empty history give \<open>round_count = k\<close>, \<open>min k 100\<close> rounds
  and the newest round at \<open>rounds[0]\<close>, on both backends). The counts hold on both
  backends and the order holds on Redis (\<open>memory_history_after_appends\<close>,
  \<open>redis_history_after_appends\<close>, \<open>newest_first\<close>). On the in-memory fallback the order
  fails: \<^verbatim>\<open>update_session_history\<close> appends at the end of the list, so after two appends
  \<open>rounds[0]\<close> is the round appended first. The Redis branch pushes at the head
  (\<^verbatim>\<open>lpush\<close>, "at the beginning for LIFO order"), and the readers of the history
  (\<^verbatim>\<open>history["rounds"][:15]\<close>, "the most recent 15 rounds") rely on that order.
\<close>

theorem memory_history_oldest_first:
  "(let e = fixture_env [];
        w = update_session_history e ''test-session-id'' statements_def
              (update_session_history e ''test-session-id'' statements_abc (memory_world empty_history));
        h = fst (get_session_history e ''test-session-id'' w)
    in round_count h = 2 \<and> rounds h = [statements_abc, statements_def]
       \<and> hd (rounds h) \<noteq> statements_def)"
  by code_simp

text \<open>
  Claim C2 (reset, then get, returns \<open>round_count = 0\<close> and no rounds under the same
  session id, and reset reports the count it cleared, on both backends). On a Redis that
  answers every command this holds (\<open>redis_reset_then_get\<close>). On the in-memory fallback the
  reset action raises \<^verbatim>\<open>UnboundLocalError\<close> (the message is the one of Python 3.11):
  \<^verbatim>\<open>manage_session\<close> assigns \<^verbatim>\<open>session_history\<close> without declaring it global, so
  the read before the assignment is of an unbound local variable. Nothing is reported and
  the history read afterwards is the one before the reset.
\<close>

theorem memory_reset_raises:
  "(let e = fixture_env [];
        h1 = \<lparr>rounds = [statements_abc], round_count = 1\<rparr>
    in case manage_session_post e (PStr ''reset'') (memory_world h1) of
         (res, w') \<Rightarrow>
           res = Inl (UnboundLocalError (''cannot access local variable '' @ apostrophe
                  @ ''session_history'' @ apostrophe @ '' where it is not associated with a value''))
           \<and> fst (get_session_history e ''test-session-id'' w') = h1)"
  by code_simp

section \<open>What generation leaves alone\<close>

text \<open>
  Round generation and the history store do not touch the scheduler's globals or the
  subscribers' queues, and only the call of the model adds to \<open>api_log\<close>.
\<close>

lemma control_unchanged_refl: "control_unchanged w w"
  by (simp add: control_unchanged_def)

lemma control_unchanged_trans:
  "control_unchanged w w1 \<Longrightarrow> control_unchanged w1 w2 \<Longrightarrow> control_unchanged w w2"
  by (simp add: control_unchanged_def)

lemma get_session_id_control: "get_session_id e w = (sid, w1) \<Longrightarrow> control_unchanged w w1"
  by (auto simp: get_session_id_def control_unchanged_def Let_def split: option.splits if_splits)

lemma get_session_history_control: "get_session_history e sid w = (h, w1) \<Longrightarrow> control_unchanged w w1"
  by (auto simp: get_session_history_def control_unchanged_def split: option.splits prod.splits sum.splits)

lemma update_session_history_control: "control_unchanged w (update_session_history e sid st w)"
  by (auto simp: update_session_history_def control_unchanged_def split: option.splits prod.splits sum.splits)

lemma store_log_control: "control_unchanged w (store_log e k v w)"
  by (auto simp: store_log_def control_unchanged_def split: option.splits)

lemma log_history_size_control: "control_unchanged w (log_history_size sid w)"
  by (auto simp: log_history_size_def control_unchanged_def split: option.splits)

lemma store_round_control: "store_round e rd w = (res, w') \<Longrightarrow> control_unchanged w w'"
  unfolding store_round_def
  by (auto simp: Let_def control_unchanged_refl split: sum.splits prod.splits
      intro: control_unchanged_trans [OF get_session_id_control]
             control_unchanged_trans [OF get_session_id_control control_unchanged_trans [OF update_session_history_control log_history_size_control]]
             control_unchanged_trans [OF get_session_id_control update_session_history_control])

lemma process_response_control: "process_response e t w = (res, w') \<Longrightarrow> control_unchanged w w'"
  unfolding process_response_def
  by (auto simp: control_unchanged_refl split: sum.splits prod.splits dest: store_round_control)

lemma clock_control: "control_unchanged w (w\<lparr>clock := n\<rparr>)"
  by (simp add: control_unchanged_def)

lemma api_log_control: "control_unchanged w (w\<lparr>api_log := l\<rparr>)"
  by (simp add: control_unchanged_def)

lemma call_model_control: "call_model e client sid rn p w = (res, w') \<Longrightarrow> control_unchanged w w'"
  unfolding call_model_def Let_def
  apply (auto split: api_outcome.splits simp: api_log_control)
  apply (drule process_response_control)
  apply (auto simp: control_unchanged_def store_log_def split: option.splits)
  done

lemma generate_new_round_control: "generate_new_round e w = (res, w') \<Longrightarrow> control_unchanged w w'"
  unfolding generate_new_round_def Let_def
  apply (auto split: option.splits prod.splits sum.splits if_splits simp: control_unchanged_refl)
  apply (auto dest!: get_session_id_control get_session_history_control call_model_control simp: control_unchanged_def store_log_def split: option.splits)
  done

lemma get_session_id_api_log: "get_session_id e w = (sid, w1) \<Longrightarrow> api_log w1 = api_log w"
  by (auto simp: get_session_id_def Let_def split: option.splits if_splits)

lemma get_session_history_api_log: "get_session_history e sid w = (h, w1) \<Longrightarrow> api_log w1 = api_log w"
  by (auto simp: get_session_history_def split: option.splits prod.splits sum.splits)

lemma update_session_history_api_log: "api_log (update_session_history e sid st w) = api_log w"
  by (auto simp: update_session_history_def split: option.splits prod.splits sum.splits)

lemma store_log_api_log: "api_log (store_log e k v w) = api_log w"
  by (auto simp: store_log_def split: option.splits)

lemma log_history_size_api_log: "api_log (log_history_size sid w) = api_log w"
  by (auto simp: log_history_size_def split: option.splits)

lemma store_round_api_log: "store_round e rd w = (res, w') \<Longrightarrow> api_log w' = api_log w"
  unfolding store_round_def
  by (auto simp: Let_def update_session_history_api_log log_history_size_api_log
      split: sum.splits prod.splits dest: get_session_id_api_log)

lemma store_round_returns: "store_round e rd w = (Inr r, w') \<Longrightarrow> r = rd"
  unfolding store_round_def
  by (auto simp: Let_def split: sum.splits prod.splits)

lemma process_response_api_log: "process_response e t w = (res, w') \<Longrightarrow> api_log w' = api_log w"
  unfolding process_response_def
  by (auto split: sum.splits prod.splits dest: store_round_api_log)

lemma is_error_result_error_result: "is_error_result (error_result m)"
  by (simp add: is_error_result_def error_result_def)

lemma process_response_success:
  "process_response e t w = (v, w') \<Longrightarrow> \<not> is_error_result v
     \<Longrightarrow> parse_json_text e (extract_json_text t) = Inr v"
  unfolding process_response_def
  by (auto split: sum.splits prod.splits simp: is_error_result_error_result dest: store_round_returns)

lemma call_model_api_log:
  "call_model e client sid rn p w = (res, w') \<Longrightarrow> api_log w' = api_log w @ [p]"
  unfolding call_model_def Let_def
  by (auto split: api_outcome.splits dest!: process_response_api_log simp: store_log_api_log)

lemma call_model_success:
  "call_model e client sid rn p w = (v, w') \<Longrightarrow> \<not> is_error_result v
     \<Longrightarrow> \<exists>response_text. client (length (api_log w)) p = Reply response_text
           \<and> parse_json_text e (extract_json_text response_text) = Inr v"
  unfolding call_model_def Let_def
  by (auto split: api_outcome.splits simp: is_error_result_error_result dest: process_response_success)

text \<open>
  The errors that leave the history alone: a failed precondition, a model call that
  raises, and a reply that does not parse, even after the repair pass.
\<close>

lemma prompt_key_not_statements_key: "prompt_key sid \<noteq> statements_key sid'"
  by (simp add: prompt_key_def statements_key_def REDIS_SESSION_PREFIX_def REDIS_STATEMENT_PREFIX_def)

lemma response_key_not_statements_key: "response_key sid \<noteq> statements_key sid'"
  by (simp add: response_key_def statements_key_def REDIS_SESSION_PREFIX_def REDIS_STATEMENT_PREFIX_def)

lemma get_session_id_view: "get_session_id e w = (sid, w1) \<Longrightarrow> history_view w1 s = history_view w s"
  by (auto simp: get_session_id_def history_view_def Let_def split: option.splits if_splits)

lemma preservesD: "preserves Q m \<Longrightarrow> m r = (res, r1) \<Longrightarrow> Q r1 = Q r"
  by (auto simp: preserves_def dest: spec [of _ r])

lemma preserves_cmd:
  assumes "\<And>r. Q (snd (f r)) = Q r" and "\<And>r b. Q (r\<lparr>budget := b\<rparr>) = Q r"
  shows "preserves Q (cmd f)"
  unfolding preserves_def
proof
  fix r
  show "Q (snd (cmd f r)) = Q r"
  proof (cases "budget r")
    case None
    then show ?thesis using assms(1) [of r] by (cases "f r") (simp add: cmd_def)
  next
    case (Some k)
    show ?thesis
    proof (cases k)
      case 0
      with Some show ?thesis by (simp add: cmd_def)
    next
      case (Suc n)
      with Some show ?thesis
        using assms(1) [of "r\<lparr>budget := Some n\<rparr>"] assms(2) [of "Some n" r]
        by (cases "f (r\<lparr>budget := Some n\<rparr>)") (simp add: cmd_def)
    qed
  qed
qed

lemma preserves_rbind:
  assumes "preserves Q m" and "\<And>a. preserves Q (k a)"
  shows "preserves Q (rbind m k)"
  unfolding preserves_def
proof
  fix r
  obtain x r' where m: "m r = (x, r')"
    by (cases "m r")
  have q: "Q r' = Q r"
    using preservesD [OF assms(1) m] .
  show "Q (snd (rbind m k r)) = Q r"
  proof (cases x)
    case (Inl e)
    with m q show ?thesis by (simp add: rbind_def)
  next
    case (Inr a)
    obtain y r'' where k: "k a r' = (y, r'')"
      by (cases "k a r'")
    from preservesD [OF assms(2) k] m q Inr k show ?thesis
      by (simp add: rbind_def)
  qed
qed

lemma preserves_rreturn: "preserves Q (rreturn a)"
  by (simp add: preserves_def rreturn_def)

lemma preserves_dumps: "preserves Q (dumps_or_raise e v)"
  by (simp add: preserves_def dumps_or_raise_def split: option.splits)

lemma rbind_assoc: "rbind (rbind m k) g = rbind m (\<lambda>a. rbind (k a) g)"
proof
  fix r
  show "rbind (rbind m k) g r = rbind m (\<lambda>a. rbind (k a) g) r"
    by (cases "m r") (auto simp: rbind_def split: sum.splits)
qed

lemma stored_budget: "stored sid (r\<lparr>budget := b\<rparr>) = stored sid r"
  by (simp add: stored_count_def stored_rounds_def)

lemma preserves_lrange: "preserves (stored sid) (lrange key n)"
  unfolding lrange_def by (rule preserves_cmd) (simp_all add: stored_budget)

lemma preserves_expire: "preserves (stored sid) (expire key secs)"
  unfolding expire_def
  by (rule preserves_cmd) (simp_all add: stored_count_def stored_rounds_def)

lemma preserves_lpush: "key \<noteq> statements_key sid \<Longrightarrow> preserves (stored sid) (lpush key v)"
  unfolding lpush_def
  by (rule preserves_cmd) (simp_all add: stored_count_def stored_rounds_def)

lemma preserves_ltrim: "key \<noteq> statements_key sid \<Longrightarrow> preserves (stored sid) (ltrim key n)"
  unfolding ltrim_def
  by (rule preserves_cmd) (simp_all add: stored_count_def stored_rounds_def split: option.splits)

text \<open>Reading the session hash, and writing the count 0 where there is none.\<close>

lemma preserves_session_data:
  "preserves (stored sid)
     (rbind (hgetall (session_key sid)) (\<lambda>found.
        if found = [] then
          rbind (hset (session_key sid) ''round_count'' 0) (\<lambda>u.
          rbind (expire (session_key sid) REDIS_SESSION_EXPIRY) (\<lambda>u.
          rreturn [(''round_count'', 0)]))
        else rreturn found))"
  unfolding preserves_def
  by (auto simp: rbind_def rreturn_def cmd_def hgetall_def hset_def expire_def
      stored_count_def stored_rounds_def split: option.splits nat.splits)

lemma redis_get_history_regrouped:
  "redis_get_history e sid =
     rbind
       (rbind (hgetall (session_key sid)) (\<lambda>found.
          if found = [] then
            rbind (hset (session_key sid) ''round_count'' 0) (\<lambda>u.
            rbind (expire (session_key sid) REDIS_SESSION_EXPIRY) (\<lambda>u.
            rreturn [(''round_count'', 0)]))
          else rreturn found))
       (\<lambda>session_data.
          rbind (lrange (statements_key sid) REDIS_MAX_HISTORY) (\<lambda>statement_history.
          rreturn \<lparr>rounds = decode_rounds e statement_history,
                   round_count = (case map_of session_data ''round_count'' of None \<Rightarrow> 0 | Some n \<Rightarrow> n)\<rparr>))"
  by (simp add: redis_get_history_def rbind_assoc)

lemma preserves_get_history: "preserves (stored sid) (redis_get_history e sid)"
  unfolding redis_get_history_regrouped
  by (intro preserves_rbind preserves_session_data preserves_lrange preserves_rreturn)

lemma redis_get_history_view:
  "redis_get_history e sid r = (res, r1)
     \<Longrightarrow> stored_count r1 sid = stored_count r sid \<and> stored_rounds r1 sid = stored_rounds r sid"
  using preservesD [OF preserves_get_history, of e sid r res r1] by simp

lemma preserves_log_commands:
  "key \<noteq> statements_key sid \<Longrightarrow>
     preserves (stored sid)
       (rbind (dumps_or_raise e entry) (\<lambda>entry_json.
        rbind (lpush key entry_json) (\<lambda>u.
        rbind (ltrim key REDIS_MAX_HISTORY) (\<lambda>u.
        expire key REDIS_SESSION_EXPIRY))))"
  by (intro preserves_rbind preserves_dumps preserves_lpush preserves_ltrim preserves_expire)

lemma get_session_history_view:
  "get_session_history e sid w = (h, w1) \<Longrightarrow> history_view w1 sid = history_view w sid"
  by (auto simp: get_session_history_def history_view_def
      split: option.splits prod.splits sum.splits dest: redis_get_history_view)

lemma store_log_view:
  "key \<noteq> statements_key sid \<Longrightarrow> history_view (store_log e key entry w) sid = history_view w sid"
proof (cases "redis_client w")
  case None
  then show ?thesis by (simp add: store_log_def)
next
  case (Some r)
  assume "key \<noteq> statements_key sid"
  from preserves_log_commands [OF this, of e entry] Some show ?thesis
    by (simp add: store_log_def history_view_def preserves_def)
qed

lemma history_view_fields:
  "history_view (w\<lparr>clock := n\<rparr>) s = history_view w s"
  "history_view (w\<lparr>api_log := l\<rparr>) s = history_view w s"
  by (simp_all add: history_view_def)

lemma history_unchanged_on_listed_errors:
  assumes g: "generate_new_round e w = (Inr v, w')"
    and s: "get_session_id e w = (sid, w1)"
    and listed:
      "anthropic_client e = None \<or> claude_prompt e = None \<or> claude_prompt e = Some []
       \<or> (\<exists>client full_prompt. anthropic_client e = Some client \<and> api_log w' = api_log w @ [full_prompt]
            \<and> (case client (length (api_log w)) full_prompt of
                  Reply response_text \<Rightarrow> (\<exists>msg. parse_json_text e (extract_json_text response_text) = Inl msg)
                | _ \<Rightarrow> True))"
  shows "history_view w' sid = history_view w sid"
proof (cases "anthropic_client e = None \<or> claude_prompt e = None \<or> claude_prompt e = Some []")
  case True
  with g have "w' = w"
    by (auto simp: generate_new_round_def split: option.splits)
  then show ?thesis by simp
next
  case False
  then obtain client prompt where c: "anthropic_client e = Some client"
    and p: "claude_prompt e = Some prompt" "prompt \<noteq> []"
    by auto
  obtain h w2 where gh: "get_session_history e sid w1 = (h, w2)"
    by (cases "get_session_history e sid w1")
  from g c p s gh obtain ht where ht: "build_history_text h = Inr ht"
    by (auto simp: generate_new_round_def Let_def split: sum.splits)
  define rn where "rn = round_count h + 1"
  define p0 where "p0 = prompt_to_send prompt ht rn"
  define w3 where "w3 = store_log e (prompt_key sid)
      (prompt_log prompt ht rn (isoformat_now e (clock w2))) (w2\<lparr>clock := Suc (clock w2)\<rparr>)"
  have cm: "call_model e client sid rn p0 w3 = (v, w')"
    using g c p s gh ht by (auto simp: generate_new_round_def Let_def w3_def rn_def p0_def split: prod.splits)
  have v3: "history_view w3 sid = history_view w sid"
    using get_session_id_view [OF s, of sid] get_session_history_view [OF gh]
    by (simp add: w3_def store_log_view prompt_key_not_statements_key history_view_fields)
  have l3: "api_log w3 = api_log w"
    using get_session_id_api_log [OF s] get_session_history_api_log [OF gh]
    by (simp add: w3_def store_log_api_log)
  from listed False c obtain full_prompt where fp: "api_log w' = api_log w @ [full_prompt]"
    and oc: "(case client (length (api_log w)) full_prompt of
                  Reply response_text \<Rightarrow> (\<exists>msg. parse_json_text e (extract_json_text response_text) = Inl msg)
                | _ \<Rightarrow> True)"
    by auto
  have "api_log w' = api_log w3 @ [p0]"
    using call_model_api_log [OF cm] .
  with fp l3 have "full_prompt = p0"
    by simp
  with oc l3 have oc': "(case client (length (api_log w3)) p0 of
                  Reply response_text \<Rightarrow> (\<exists>msg. parse_json_text e (extract_json_text response_text) = Inl msg)
                | _ \<Rightarrow> True)"
    by simp
  have "history_view w' sid = history_view w3 sid"
    using cm oc'
    by (auto simp: call_model_def Let_def process_response_def history_view_fields store_log_view
        response_key_not_statements_key split: api_outcome.splits)
  with v3 show ?thesis by simp
qed

section \<open>The generator\<close>

text \<open>
  Claim C6. Without a configured client, and with a client but without a loaded prompt
  (\<^verbatim>\<open>None\<close> or the empty string), \<^verbatim>\<open>generate_new_round\<close> returns at once an error
  result whose message names the missing part; the two messages differ. The state is the
  one it was called in: in particular \<open>api_log\<close> has no new entry, so the model was not
  called, and neither the session nor the store was touched.
\<close>

theorem preconditions_fail_fast:
  "(anthropic_client e = None \<longrightarrow>
      generate_new_round e w = (Inr (error_result ''Anthropic client not initialized. Check API key.''), w))
   \<and> (anthropic_client e \<noteq> None \<and> (claude_prompt e = None \<or> claude_prompt e = Some []) \<longrightarrow>
      generate_new_round e w = (Inr (error_result ''Claude prompt not loaded. Check config.yaml.''), w))
   \<and> error_result ''Anthropic client not initialized. Check API key.''
        \<noteq> error_result ''Claude prompt not loaded. Check config.yaml.''
   \<and> is_error_result (error_result ''Anthropic client not initialized. Check API key.'')
   \<and> is_error_result (error_result ''Claude prompt not loaded. Check config.yaml.'')"
  by (auto simp: generate_new_round_def error_result_def is_error_result_def split: option.splits)

theorem preconditions_fail_fast_witness:
  "anthropic_client ((fixture_env [])\<lparr>anthropic_client := None\<rparr>) = None
   \<and> generate_new_round ((fixture_env [])\<lparr>anthropic_client := None\<rparr>) (memory_world empty_history)
       = (Inr (error_result ''Anthropic client not initialized. Check API key.''), memory_world empty_history)
   \<and> anthropic_client ((fixture_env [])\<lparr>claude_prompt := Some []\<rparr>) \<noteq> None
   \<and> claude_prompt ((fixture_env [])\<lparr>claude_prompt := Some []\<rparr>) = Some []
   \<and> generate_new_round ((fixture_env [])\<lparr>claude_prompt := Some []\<rparr>) (memory_world empty_history)
       = (Inr (error_result ''Claude prompt not loaded. Check config.yaml.''), memory_world empty_history)"
  using preconditions_fail_fast [of "(fixture_env [])\<lparr>anthropic_client := None\<rparr>" "memory_world empty_history"]
        preconditions_fail_fast [of "(fixture_env [])\<lparr>claude_prompt := Some []\<rparr>" "memory_world empty_history"]
  by (simp add: fixture_env_def)

lemma generate_sends_prompt:
  assumes c: "anthropic_client e = Some client" and p: "claude_prompt e = Some prompt" "prompt \<noteq> []"
    and s: "get_session_id e w = (sid, w1)" and gh: "get_session_history e sid w1 = (h, w2)"
    and ht: "build_history_text h = Inr ht"
  shows "api_log (snd (generate_new_round e w)) = api_log w @ [prompt_to_send prompt ht (round_count h + 1)]"
proof -
  define w3 where "w3 = store_log e (prompt_key sid)
      (prompt_log prompt ht (round_count h + 1) (isoformat_now e (clock w2))) (w2\<lparr>clock := Suc (clock w2)\<rparr>)"
  obtain v w' where cm: "call_model e client sid (round_count h + 1) (prompt_to_send prompt ht (round_count h + 1)) w3 = (v, w')"
    by (cases "call_model e client sid (round_count h + 1) (prompt_to_send prompt ht (round_count h + 1)) w3")
  have g: "generate_new_round e w = (Inr v, w')"
    using c p s gh ht cm by (simp add: generate_new_round_def Let_def w3_def)
  have l3: "api_log w3 = api_log w"
    using get_session_id_api_log [OF s] get_session_history_api_log [OF gh]
    by (simp add: w3_def store_log_api_log)
  from call_model_api_log [OF cm] l3 g show ?thesis by simp
qed

text \<open>
  Claim C4. When the preconditions hold and the history context can be built, the model is
  called once, and the payload it is sent is the prompt, the history context (if any), the
  sentence with the round number \<open>r = round_count + 1\<close> of the history read, and then
  \<^verbatim>\<open>easter_egg_instruction\<close>: the special instruction for round \<open>r\<close> when \<open>r mod 3 = 0\<close>,
  nothing otherwise.
\<close>

theorem easter_egg_every_third_round:
  "anthropic_client e = Some client \<and> claude_prompt e = Some prompt \<and> prompt \<noteq> []
   \<and> get_session_id e w = (session_id, w1) \<and> get_session_history e session_id w1 = (h, w2)
   \<and> build_history_text h = Inr history_text \<and> r = round_count h + 1 \<longrightarrow>
     api_log (snd (generate_new_round e w))
       = api_log w @ [prompt @ nl @ nl
           @ (if history_text \<noteq> [] then
                history_text @ nl @ nl
                @ ''IMPORTANT: DO NOT repeat any of the facts or topics above. This is round ''
                @ str_int r @ '', so ensure complete variety.''
              else ''This is round '' @ str_int r @ ''.'')
           @ easter_egg_instruction r]
     \<and> (r mod 3 = 0 \<longrightarrow>
          easter_egg_instruction r
            = nl @ nl @ ''IMPORTANT: This is set number '' @ str_int r
              @ '', which is divisible by 3. PLEASE INCLUDE AN EASTER EGG about Erin and John Poore as described in instruction #7.'')
     \<and> (r mod 3 \<noteq> 0 \<longrightarrow> easter_egg_instruction r = [])"
proof (intro impI, elim conjE)
  assume a: "anthropic_client e = Some client" "claude_prompt e = Some prompt" "prompt \<noteq> []"
    "get_session_id e w = (session_id, w1)" "get_session_history e session_id w1 = (h, w2)"
    "build_history_text h = Inr history_text" "r = round_count h + 1"
  have "api_log (snd (generate_new_round e w)) = api_log w @ [prompt_to_send prompt history_text r]"
    using generate_sends_prompt [OF a(1-6)] a(7) by simp
  then show "api_log (snd (generate_new_round e w))
       = api_log w @ [prompt @ nl @ nl
           @ (if history_text \<noteq> [] then
                history_text @ nl @ nl
                @ ''IMPORTANT: DO NOT repeat any of the facts or topics above. This is round ''
                @ str_int r @ '', so ensure complete variety.''
              else ''This is round '' @ str_int r @ ''.'')
           @ easter_egg_instruction r]
     \<and> (r mod 3 = 0 \<longrightarrow>
          easter_egg_instruction r
            = nl @ nl @ ''IMPORTANT: This is set number '' @ str_int r
              @ '', which is divisible by 3. PLEASE INCLUDE AN EASTER EGG about Erin and John Poore as described in instruction #7.'')
     \<and> (r mod 3 \<noteq> 0 \<longrightarrow> easter_egg_instruction r = [])"
    by (simp add: prompt_to_send_def easter_egg_instruction_def)
qed

theorem easter_egg_every_third_round_witness:
  "anthropic_client (fixture_env text_round_abc) = Some (\<lambda>n full_prompt. Reply text_round_abc)
   \<and> claude_prompt (fixture_env text_round_abc) = Some ''Generate a round.''
   \<and> get_session_id (fixture_env text_round_abc) (memory_world \<lparr>rounds = [statements_abc], round_count = 2\<rparr>)
       = (''test-session-id'', memory_world \<lparr>rounds = [statements_abc], round_count = 2\<rparr>)
   \<and> get_session_history (fixture_env text_round_abc) ''test-session-id''
         (memory_world \<lparr>rounds = [statements_abc], round_count = 2\<rparr>)
       = (\<lparr>rounds = [statements_abc], round_count = 2\<rparr>, memory_world \<lparr>rounds = [statements_abc], round_count = 2\<rparr>)
   \<and> build_history_text \<lparr>rounds = [statements_abc], round_count = 2\<rparr> = Inr text_history_abc
   \<and> (3::int) mod 3 = 0
   \<and> api_log (snd (generate_new_round (fixture_env text_round_abc)
                     (memory_world \<lparr>rounds = [statements_abc], round_count = 2\<rparr>)))
       = [''Generate a round.'' @ nl @ nl @ text_history_abc @ nl @ nl
          @ ''IMPORTANT: DO NOT repeat any of the facts or topics above. This is round 3, so ensure complete variety.''
          @ nl @ nl
          @ ''IMPORTANT: This is set number 3, which is divisible by 3. PLEASE INCLUDE AN EASTER EGG about Erin and John Poore as described in instruction #7.'']
   \<and> (1::int) mod 3 \<noteq> 0
   \<and> api_log (snd (generate_new_round (fixture_env text_round_abc) (memory_world empty_history)))
       = [''Generate a round.'' @ nl @ nl @ ''This is round 1.'']"
proof -
  let ?e = "fixture_env text_round_abc"
  let ?h = "\<lparr>rounds = [statements_abc], round_count = 2\<rparr>"
  have a: "anthropic_client ?e = Some (\<lambda>n full_prompt. Reply text_round_abc)"
    "claude_prompt ?e = Some ''Generate a round.''"
    by (simp_all add: fixture_env_def)
  have s: "get_session_id ?e (memory_world h) = (''test-session-id'', memory_world h)" for h
    by (simp add: get_session_id_def memory_world_def)
  have gh: "get_session_history ?e ''test-session-id'' (memory_world h) = (h, memory_world h)" for h
    by (simp add: get_session_history_def memory_world_def)
  have b: "build_history_text ?h = Inr text_history_abc"
    by code_simp
  have b0: "build_history_text empty_history = Inr []"
    by code_simp
  have s3: "str_int 3 = ''3''" and s1: "str_int 1 = ''1''"
    by code_simp+
  have t: "text_history_abc \<noteq> []"
    by (simp add: text_history_abc_def)
  have r3: "api_log (snd (generate_new_round ?e (memory_world ?h)))
       = [''Generate a round.'' @ nl @ nl @ text_history_abc @ nl @ nl
          @ ''IMPORTANT: DO NOT repeat any of the facts or topics above. This is round 3, so ensure complete variety.''
          @ nl @ nl
          @ ''IMPORTANT: This is set number 3, which is divisible by 3. PLEASE INCLUDE AN EASTER EGG about Erin and John Poore as described in instruction #7.'']"
    using easter_egg_every_third_round [of ?e "\<lambda>n full_prompt. Reply text_round_abc" "''Generate a round.''"
        "memory_world ?h" "''test-session-id''" "memory_world ?h" ?h "memory_world ?h" text_history_abc 3]
      a s [of ?h] gh [of ?h] b s3 t
    by (simp add: memory_world_def)
  have r1: "api_log (snd (generate_new_round ?e (memory_world empty_history)))
       = [''Generate a round.'' @ nl @ nl @ ''This is round 1.'']"
    using easter_egg_every_third_round [of ?e "\<lambda>n full_prompt. Reply text_round_abc" "''Generate a round.''"
        "memory_world empty_history" "''test-session-id''" "memory_world empty_history" empty_history
        "memory_world empty_history" "[]" 1]
      a s [of empty_history] gh [of empty_history] b0 s1
    by (simp add: memory_world_def empty_history_def)
  show ?thesis
    using a s [of ?h] gh [of ?h] b r3 r1 by simp
qed

lemma render_statement_line:
  "render_statement (PDict kvs) =
     Inr (''- ''
          @ (if truthy (case map_of kvs ''isLie'' of None \<Rightarrow> PBool False | Some v \<Rightarrow> v)
             then ''LIE'' else ''TRUTH'')
          @ '': '' @ py_str (case map_of kvs ''text'' of None \<Rightarrow> PStr ''Unknown'' | Some v \<Rightarrow> v) @ nl)"
  by (simp add: render_statement_def py_get_def split: option.splits)

lemma build_history_text_shape:
  assumes "rounds h \<noteq> []" and "build_history_text h = Inr history_text"
  shows "\<exists>body. render_rounds (round_count h - int (length (recent_rounds h)) + 1) (recent_rounds h) = Inr body
           \<and> history_text = ''Here are the previous statements used in this session:'' @ nl @ body
                @ overlap_instruction (length (recent_rounds h))"
  using assms by (auto simp: build_history_text_def split: sum.splits)

text \<open>
  Claim C8 (with a non-empty history the prompt lists the up-to-15 most recent rounds, each
  statement as a LIE or TRUTH line, and an instruction to avoid overlap; the round number is
  \<open>round_count + 1\<close>). The prompt lists \<open>rounds[:15]\<close>, which on Redis are the newest
  rounds (\<open>redis_recent_rounds\<close>). On the in-memory fallback they are the oldest of the
  rounds kept (\<open>memory_recent_rounds\<close>): after sixteen rounds the prompt lists rounds 1 to
  15, and the prompt sent is the one a history without the newest round gives.
\<close>

theorem memory_prompt_lists_oldest_rounds:
  "(let e = fixture_env text_round_abc;
        w = fold (update_session_history e ''test-session-id'') (map numbered_round [1..<17])
              (memory_world empty_history);
        h = fst (get_session_history e ''test-session-id'' w);
        without_newest = memory_world \<lparr>rounds = map numbered_round [1..<16], round_count = 16\<rparr>
    in round_count h = 16
       \<and> last (rounds h) = numbered_round 16
       \<and> recent_rounds h = map numbered_round [1..<16]
       \<and> api_log (snd (generate_new_round e w)) = api_log (snd (generate_new_round e without_newest))
       \<and> length (api_log (snd (generate_new_round e w))) = 1)"
  by code_simp

text \<open>
  Claim C3 (every round returned on success has exactly three statements, exactly one of them
  a lie). As stated it fails: the generator returns what the model's text parses to and
  checks neither the number of statements nor their flags. For the reply
  \<^verbatim>\<open>{"statements": []}\<close> it returns that round, which is no error result.
\<close>

theorem round_without_statements_returned:
  "(case generate_new_round (fixture_env text_no_statements) (memory_world empty_history) of
      (res, w') \<Rightarrow>
        res = Inr (PDict [(''statements'', PList [])])
        \<and> \<not> is_error_result (PDict [(''statements'', PList [])])
        \<and> \<not> exactly_one_lie (PDict [(''statements'', PList [])]))"
  by code_simp

text \<open>
  Claim C3, amended. When generation returns a value that is no error result, the model was
  called once and replied with a text, and the value returned is exactly what that text
  parses to (after extraction and the repair pass): the round has three statements with one
  lie precisely when the model's payload has.
\<close>

theorem returned_round_is_parsed_payload:
  "generate_new_round e w = (Inr v, w') \<and> \<not> is_error_result v \<longrightarrow>
     (\<exists>client full_prompt response_text.
        anthropic_client e = Some client
        \<and> api_log w' = api_log w @ [full_prompt]
        \<and> client (length (api_log w)) full_prompt = Reply response_text
        \<and> parse_json_text e (extract_json_text response_text) = Inr v)"
proof (intro impI, elim conjE)
  assume g: "generate_new_round e w = (Inr v, w')" and ne: "\<not> is_error_result v"
  from g ne obtain client prompt where c: "anthropic_client e = Some client"
    and p: "claude_prompt e = Some prompt" "prompt \<noteq> []"
    by (auto simp: generate_new_round_def is_error_result_error_result split: option.splits if_splits)
  obtain sid w1 where s: "get_session_id e w = (sid, w1)"
    by (cases "get_session_id e w")
  obtain h w2 where gh: "get_session_history e sid w1 = (h, w2)"
    by (cases "get_session_history e sid w1")
  from g c p s gh obtain ht where ht: "build_history_text h = Inr ht"
    by (auto simp: generate_new_round_def Let_def split: sum.splits)
  define w3 where "w3 = store_log e (prompt_key sid)
      (prompt_log prompt ht (round_count h + 1) (isoformat_now e (clock w2))) (w2\<lparr>clock := Suc (clock w2)\<rparr>)"
  from g c p s gh ht
  have cm: "call_model e client sid (round_count h + 1) (prompt_to_send prompt ht (round_count h + 1)) w3 = (v, w')"
    by (auto simp: generate_new_round_def Let_def w3_def split: prod.splits)
  have l3: "api_log w3 = api_log w"
    using get_session_id_api_log [OF s] get_session_history_api_log [OF gh]
    by (simp add: w3_def store_log_api_log)
  from call_model_api_log [OF cm] call_model_success [OF cm ne] c l3
  show "\<exists>client full_prompt response_text.
        anthropic_client e = Some client
        \<and> api_log w' = api_log w @ [full_prompt]
        \<and> client (length (api_log w)) full_prompt = Reply response_text
        \<and> parse_json_text e (extract_json_text response_text) = Inr v"
    by auto
qed

theorem returned_round_is_parsed_payload_witness:
  "generate_new_round (fixture_env text_round_abc) (memory_world empty_history)
     = (Inr round_abc, snd (generate_new_round (fixture_env text_round_abc) (memory_world empty_history)))
   \<and> \<not> is_error_result round_abc
   \<and> exactly_one_lie round_abc
   \<and> (\<exists>client full_prompt response_text.
        anthropic_client (fixture_env text_round_abc) = Some client
        \<and> api_log (snd (generate_new_round (fixture_env text_round_abc) (memory_world empty_history)))
            = api_log (memory_world empty_history) @ [full_prompt]
        \<and> client (length (api_log (memory_world empty_history))) full_prompt = Reply response_text
        \<and> parse_json_text (fixture_env text_round_abc) (extract_json_text response_text) = Inr round_abc)"
proof -
  have f: "fst (generate_new_round (fixture_env text_round_abc) (memory_world empty_history)) = Inr round_abc"
    by code_simp
  have g: "generate_new_round (fixture_env text_round_abc) (memory_world empty_history)
     = (Inr round_abc, snd (generate_new_round (fixture_env text_round_abc) (memory_world empty_history)))"
    using f by (metis prod.collapse)
  have n: "\<not> is_error_result round_abc"
    by code_simp
  have l: "exactly_one_lie round_abc"
    by code_simp
  from returned_round_is_parsed_payload [of "fixture_env text_round_abc" "memory_world empty_history" round_abc
      "snd (generate_new_round (fixture_env text_round_abc) (memory_world empty_history))"] g n l
  show ?thesis by blast
qed


subsection \<open>Facts about the extraction\<close>

text \<open>
  \<open>find_fence\<close> splits a text at its first fence (\<open>find_fence_split\<close>,
  \<open>find_fence_earlier\<close>); a fence behind a text without a backquote is the first one
  (\<open>find_fence_content\<close>). The pattern finds no block in a text without a fence, and the
  blocks of a text are those found from its first fence on.
\<close>

lemma startswith_fence_Cons: "c \<noteq> CHR 0x60 \<Longrightarrow> \<not> startswith fence (c # s)"
  by (simp add: fence_def)

lemma startswith_fence_append: "startswith fence (fence @ s)"
  by (simp add: fence_def)





lemma find_fence_content:
  "CHR 0x60 \<notin> set content \<Longrightarrow> find_fence (content @ fence @ post) = Some (content, post)"
proof (induction content)
  case Nil
  show ?case by (simp add: fence_def)
next
  case (Cons c content)
  then show ?case by (auto simp: fence_def)
qed



























text \<open>
  Claim C10 (when generation returns an error result, the history is unchanged). This holds
  for a failed precondition, a model call that raises and a reply that does not parse
  (\<open>history_unchanged_on_listed_errors\<close>). It fails for an error after the parse: the
  model answers \<^verbatim>\<open>{"statements": [1]}\<close>, the text parses, the statements are appended
  to the history, and then the loop that collects the statements' topics for the log calls
  \<^verbatim>\<open>stmt.get\<close> on the number; the \<^verbatim>\<open>except Exception\<close> handler returns an error
  result. The history has one round more.
\<close>

theorem error_after_history_append:
  "(let e = fixture_env text_number_statement
    in case generate_new_round e (memory_world empty_history) of
         (res, w') \<Rightarrow>
           res = Inr (error_result (''Unexpected API Error: '' @ apostrophe @ ''int'' @ apostrophe
                        @ '' object has no attribute '' @ apostrophe @ ''get'' @ apostrophe))
           \<and> fst (get_session_history e ''test-session-id'' w')
               = \<lparr>rounds = [PList [PInt 1]], round_count = 1\<rparr>)"
  by code_simp

section \<open>The broadcast hub\<close>




section \<open>The preload cache\<close>

text \<open>
  Claim C7. A run of \<^verbatim>\<open>preload_next_round\<close> that finds \<open>is_preloading\<close> set or a round
  in the cache changes nothing. A run that passes this check ends with \<open>is_preloading\<close>
  cleared, on every path. A cache that holds no error result holds none after the run. When
  the generation of a run that passed the check raises or returns an error result, the cache
  is still empty afterwards, so the idle branch of the background task starts a new preload.
\<close>

theorem preload_single_flight:
  "(is_preloading w \<or> preloaded_round w \<noteq> PNone \<longrightarrow> preload_next_round e w = (Inr (), w))
   \<and> (\<not> is_preloading w \<and> preloaded_round w = PNone \<longrightarrow>
        \<not> is_preloading (snd (preload_next_round e w)))
   \<and> (\<not> is_error_result (preloaded_round w) \<longrightarrow>
        \<not> is_error_result (preloaded_round (snd (preload_next_round e w))))
   \<and> (\<not> is_preloading w \<and> preloaded_round w = PNone
        \<and> (case fst (generate_new_round e (w\<lparr>is_preloading := True\<rparr>)) of
              Inl ex \<Rightarrow> True | Inr next_round \<Rightarrow> is_error_result next_round) \<longrightarrow>
        preloaded_round (snd (preload_next_round e w)) = PNone
        \<and> idle_starts_preload (snd (preload_next_round e w)))"
proof -
  obtain res w1 where g: "generate_new_round e (w\<lparr>is_preloading := True\<rparr>) = (res, w1)"
    by (cases "generate_new_round e (w\<lparr>is_preloading := True\<rparr>)")
  from generate_new_round_control [OF g]
  have c: "preloaded_round w1 = preloaded_round w"
    by (simp add: control_unchanged_def)
  show ?thesis
    using g c
    by (auto simp: preload_next_round_def idle_starts_preload_def is_error_result_def split: sum.splits)
qed

theorem preload_single_flight_witness:
  "\<not> is_preloading (memory_world empty_history)
   \<and> preloaded_round (memory_world empty_history) = PNone
   \<and> \<not> is_error_result (preloaded_round (memory_world empty_history))
   \<and> \<not> is_error_result (preloaded_round (snd (preload_next_round (fixture_env ''hello'') (memory_world empty_history))))
   \<and> fst (generate_new_round (fixture_env ''hello'') ((memory_world empty_history)\<lparr>is_preloading := True\<rparr>))
       = Inr (error_result ''Failed to parse response from LLM: Expecting value: line 1 column 1 (char 0)'')
   \<and> \<not> is_preloading (snd (preload_next_round (fixture_env ''hello'') (memory_world empty_history)))
   \<and> preloaded_round (snd (preload_next_round (fixture_env ''hello'') (memory_world empty_history))) = PNone
   \<and> idle_starts_preload (snd (preload_next_round (fixture_env ''hello'') (memory_world empty_history)))
   \<and> is_preloading ((memory_world empty_history)\<lparr>is_preloading := True\<rparr>)
   \<and> preload_next_round (fixture_env ''hello'') ((memory_world empty_history)\<lparr>is_preloading := True\<rparr>)
       = (Inr (), (memory_world empty_history)\<lparr>is_preloading := True\<rparr>)"
proof -
  have g: "fst (generate_new_round (fixture_env ''hello'') ((memory_world empty_history)\<lparr>is_preloading := True\<rparr>))
       = Inr (error_result ''Failed to parse response from LLM: Expecting value: line 1 column 1 (char 0)'')"
    by code_simp
  have i: "\<not> is_preloading (memory_world empty_history)" "preloaded_round (memory_world empty_history) = PNone"
    by (simp_all add: memory_world_def)
  show ?thesis
    using preload_single_flight [of "memory_world empty_history" "fixture_env ''hello''"]
      preload_single_flight [of "(memory_world empty_history)\<lparr>is_preloading := True\<rparr>" "fixture_env ''hello''"]
      g i
    by (simp add: is_error_result_def error_result_def)
qed

end
